theory Spec2Isabelle
  imports Main "HOL-Library.Char_ord" "HOL-Library.List_Lexorder"
begin

section \<open>JavaScript values\<close>

text \<open>
  The handlers of \<^verbatim>\<open>api/mews-availability.js\<close> work on parsed JSON (the request body and
  the upstream response), on strings and on \<^verbatim>\<open>Date\<close> objects.  A JSON value is a
  \<open>json\<close>; \<^verbatim>\<open>undefined\<close> is \<open>None\<close> of \<open>json option\<close>.  Numbers are the integer
  counts of the upstream report.  A thrown exception is a value of \<open>js_error\<close>, carried
  in the left summand of a result.
\<close>

datatype json =
    JNull
  | JBool bool
  | JNum int
  | JStr string
  | JArr "json list"
  | JObj "(string \<times> json) list"

datatype js_error =
    TypeError string
  | RangeError string
  | SyntaxError string
  | Error string

fun message :: "js_error \<Rightarrow> string" where
  "message (TypeError m) = m"
| "message (RangeError m) = m"
| "message (SyntaxError m) = m"
| "message (Error m) = m"

section \<open>Digits and the date pattern\<close>

definition is_digit :: "char \<Rightarrow> bool" where
  "is_digit c \<longleftrightarrow> CHR ''0'' \<le> c \<and> c \<le> CHR ''9''"

definition digit_val :: "char \<Rightarrow> nat" where
  "digit_val c = of_char c - 48"

definition digit_char :: "nat \<Rightarrow> char" where
  "digit_char n = ''0123456789'' ! n"

text \<open>The value of a string of decimal digits, most significant digit first.\<close>

definition digits_val :: "string \<Rightarrow> nat" where
  "digits_val s = foldl (\<lambda>a c. 10 * a + digit_val c) 0 s"

text \<open>
  A number in a field of fixed width, padded with zeros on the left, as
  \<^verbatim>\<open>toISOString\<close> prints each component of a date.
\<close>

fun zero_pad :: "nat \<Rightarrow> nat \<Rightarrow> string" where
  "zero_pad 0 n = []"
| "zero_pad (Suc w) n = zero_pad w (n div 10) @ [digit_char (n mod 10)]"

text \<open>
  The test \<^verbatim>\<open>/^\d{4}-\d{2}-\d{2}$/.test(s)\<close>: exactly ten characters, digits
  around two hyphens.
\<close>

definition date_pattern :: "string \<Rightarrow> bool" where
  "date_pattern s \<longleftrightarrow>
     length s = 10 \<and>
     list_all is_digit (take 4 s) \<and> s ! 4 = CHR ''-'' \<and>
     list_all is_digit (take 2 (drop 5 s)) \<and> s ! 7 = CHR ''-'' \<and>
     list_all is_digit (drop 8 s)"

section \<open>The Date object\<close>

text \<open>
  A valid \<^verbatim>\<open>Date\<close> is kept as its UTC calendar fields and the milliseconds
  elapsed within its day; an invalid one (time value \<^verbatim>\<open>NaN\<close>) is \<open>None\<close>.  Years
  are those a four-digit year can reach, so a year is a natural number.
\<close>

datatype js_date = Date (year: nat) (month: nat) (day: nat) (ms_of_day: nat)

definition leap_year :: "nat \<Rightarrow> bool" where
  "leap_year y \<longleftrightarrow> (y mod 4 = 0 \<and> y mod 100 \<noteq> 0) \<or> y mod 400 = 0"

definition days_in_month :: "nat \<Rightarrow> nat \<Rightarrow> nat" where
  "days_in_month y m =
     (if m = 2 then (if leap_year y then 29 else 28)
      else if m = 4 \<or> m = 6 \<or> m = 9 \<or> m = 11 then 30
      else 31)"

text \<open>
  \<^verbatim>\<open>MakeDay\<close> of the language specification for a day of the month past the end
  of its month: the surplus is carried into the following months.
\<close>

function make_day :: "nat \<Rightarrow> nat \<Rightarrow> nat \<Rightarrow> nat \<times> nat \<times> nat" where
  "make_day y m d =
     (if d \<le> days_in_month y m then (y, m, d)
      else if m < 12 then make_day y (m + 1) (d - days_in_month y m)
      else make_day (y + 1) 1 (d - days_in_month y m))"
  by pat_completeness auto
termination
  by (relation "measure (\<lambda>(y, m, d). d)") (auto simp: days_in_month_def)

declare make_day.simps [simp del]

text \<open>
  \<^verbatim>\<open>new Date(s)\<close> for the complete date-time form
  \<^verbatim>\<open>YYYY-MM-DDTHH:mm:ssZ\<close> or \<^verbatim>\<open>YYYY-MM-DDTHH:mm:ss.sssZ\<close>, which is what the
  handlers build from a ten-character date.  Node.js accepts a month from 01 to 12
  and a day from 01 to 31 and normalises a day past the end of the month; a field out
  of these bounds makes the date invalid.  Any other string is taken as unparseable.
\<close>

definition time_pattern :: "string \<Rightarrow> bool" where
  "time_pattern t \<longleftrightarrow>
     (length t = 10 \<or> length t = 14) \<and>
     t ! 0 = CHR ''T'' \<and>
     list_all is_digit (take 2 (drop 1 t)) \<and> t ! 3 = CHR '':'' \<and>
     list_all is_digit (take 2 (drop 4 t)) \<and> t ! 6 = CHR '':'' \<and>
     list_all is_digit (take 2 (drop 7 t)) \<and>
     (if length t = 10 then t ! 9 = CHR ''Z''
      else t ! 9 = CHR ''.'' \<and> list_all is_digit (take 3 (drop 10 t)) \<and> t ! 13 = CHR ''Z'')"

definition Date_parse :: "string \<Rightarrow> js_date option" where
  "Date_parse s =
     (let ds = take 10 s; ts = drop 10 s in
      if date_pattern ds \<and> time_pattern ts then
        (let y = digits_val (take 4 ds);
             m = digits_val (take 2 (drop 5 ds));
             d = digits_val (drop 8 ds);
             h = digits_val (take 2 (drop 1 ts));
             mi = digits_val (take 2 (drop 4 ts));
             sec = digits_val (take 2 (drop 7 ts));
             ms = (if length ts = 14 then digits_val (take 3 (drop 10 ts)) else 0)
         in if 1 \<le> m \<and> m \<le> 12 \<and> 1 \<le> d \<and> d \<le> 31 \<and> h \<le> 23 \<and> mi \<le> 59 \<and> sec \<le> 59
            then (case make_day y m d of
                    (y', m', d') \<Rightarrow> Some (Date y' m' d' (((h * 60 + mi) * 60 + sec) * 1000 + ms)))
            else None)
      else None)"

definition getUTCDate :: "js_date \<Rightarrow> nat" where
  "getUTCDate date = day date"

text \<open>\<^verbatim>\<open>date.setUTCDate(n)\<close>, for \<open>n\<close> at least 1 (the handler passes \<^verbatim>\<open>getUTCDate() + 1\<close>).\<close>

definition setUTCDate :: "js_date \<Rightarrow> nat \<Rightarrow> js_date" where
  "setUTCDate date n =
     (case make_day (year date) (month date) n of
        (y', m', d') \<Rightarrow> Date y' m' d' (ms_of_day date))"

text \<open>
  \<^verbatim>\<open>toISOString\<close>: four digits for a year up to 9999, a sign and six digits
  beyond.
\<close>

definition toISOString :: "js_date \<Rightarrow> string" where
  "toISOString date =
     (let t = ms_of_day date in
      (if year date \<le> 9999 then zero_pad 4 (year date) else CHR ''+'' # zero_pad 6 (year date))
      @ ''-'' @ zero_pad 2 (month date) @ ''-'' @ zero_pad 2 (day date)
      @ ''T'' @ zero_pad 2 (t div 3600000) @ '':'' @ zero_pad 2 (t div 60000 mod 60)
      @ '':'' @ zero_pad 2 (t div 1000 mod 60) @ ''.'' @ zero_pad 3 (t mod 1000) @ ''Z'')"

section \<open>The missing-last-day workaround\<close>

text \<open>
  A \<^verbatim>\<open>Set\<close> of strings keeps its elements in insertion order without
  duplicates: a list, with \<^verbatim>\<open>add\<close> appending an element that is new.
\<close>

definition set_add :: "'a \<Rightarrow> 'a list \<Rightarrow> 'a list" where
  "set_add x xs = (if x \<in> set xs then xs else xs @ [x])"

text \<open>
  \<^verbatim>\<open>addOneDay\<close>: the date is read as UTC midnight, moved one day on and printed;
  \<^verbatim>\<open>toISOString\<close> of an invalid date throws a \<^verbatim>\<open>RangeError\<close>.
\<close>

definition addOneDay :: "string \<Rightarrow> js_error + string" where
  "addOneDay dateString =
     (case Date_parse (dateString @ ''T00:00:00Z'') of
        None \<Rightarrow> Inl (RangeError ''Invalid time value'')
      | Some date \<Rightarrow>
          Inr (take 10 (toISOString (setUTCDate date (getUTCDate date + 1)))))"

text \<open>
  The loop over \<^verbatim>\<open>sortedDates\<close>: the first argument is the initial set, the second
  the part of the sorted array from index \<open>i\<close> on, the third the final set built so
  far.
\<close>

fun workaround_loop :: "string list \<Rightarrow> string list \<Rightarrow> string list \<Rightarrow> js_error + string list" where
  "workaround_loop initialUnavailableDates [] finalUnavailableDates = Inr finalUnavailableDates"
| "workaround_loop initialUnavailableDates (currentDate # rest) finalUnavailableDates =
     (case addOneDay currentDate of
        Inl e \<Rightarrow> Inl e
      | Inr nextDay \<Rightarrow>
          (case (case rest of
                   [] \<Rightarrow> Inr True
                 | next # _ \<Rightarrow>
                     (case addOneDay currentDate of
                        Inl e \<Rightarrow> Inl e
                      | Inr d \<Rightarrow> Inr (d \<noteq> next))) of
             Inl e \<Rightarrow> Inl e
           | Inr isLastOfBlock \<Rightarrow>
               workaround_loop initialUnavailableDates rest
                 (if isLastOfBlock \<and> nextDay \<notin> set initialUnavailableDates
                  then set_add nextDay finalUnavailableDates
                  else finalUnavailableDates)))"

text \<open>
  The whole transform, from the initial set to the array sent back:
  \<^verbatim>\<open>Array.from(...).sort()\<close> orders strings by their code units.
\<close>

definition workaround :: "string list \<Rightarrow> js_error + string list" where
  "workaround initialUnavailableDates =
     (case workaround_loop initialUnavailableDates (sort initialUnavailableDates)
             initialUnavailableDates of
        Inl e \<Rightarrow> Inl e
      | Inr finalUnavailableDates \<Rightarrow> Inr (sort finalUnavailableDates))"

section \<open>Operations on JavaScript values\<close>

text \<open>Truthiness of a value; \<^verbatim>\<open>undefined\<close> is \<open>None\<close>.\<close>

fun truthy :: "json option \<Rightarrow> bool" where
  "truthy None = False"
| "truthy (Some JNull) = False"
| "truthy (Some (JBool b)) = b"
| "truthy (Some (JNum n)) = (n \<noteq> 0)"
| "truthy (Some (JStr s)) = (s \<noteq> [])"
| "truthy (Some (JArr xs)) = True"
| "truthy (Some (JObj fs)) = True"

text \<open>
  Reading a property.  Reading from \<^verbatim>\<open>null\<close> throws; an object gives the value stored
  under the key, or \<^verbatim>\<open>undefined\<close>; any other value gives \<^verbatim>\<open>undefined\<close>, since
  none of the names the handlers read (\<^verbatim>\<open>CategoryAvailabilities\<close>,
  \<^verbatim>\<open>TimeUnitStartsUtc\<close>, \<^verbatim>\<open>DatesUtc\<close>, \<^verbatim>\<open>CategoryId\<close>, \<^verbatim>\<open>Availabilities\<close>,
  \<^verbatim>\<open>Message\<close>, \<^verbatim>\<open>villaId\<close>, \<^verbatim>\<open>startDate\<close>, \<^verbatim>\<open>endDate\<close>) is a built-in property
  of a string, a number, a boolean or an array.
\<close>

fun get_prop :: "json \<Rightarrow> string \<Rightarrow> js_error + json option" where
  "get_prop JNull k = Inl (TypeError (''Cannot read properties of null (reading '' @ [CHR 0x27] @ k @ [CHR 0x27] @ '')''))"
| "get_prop (JObj fs) k = Inr (map_of fs k)"
| "get_prop _ k = Inr None"

text \<open>
  Strict equality \<^verbatim>\<open>===\<close>.  Two arrays or two objects are equal only when they are
  the same object, which a value of the request body and a value of the upstream
  response never are.
\<close>

fun strict_eq :: "json option \<Rightarrow> json option \<Rightarrow> bool" where
  "strict_eq None None = True"
| "strict_eq (Some JNull) (Some JNull) = True"
| "strict_eq (Some (JBool a)) (Some (JBool b)) = (a = b)"
| "strict_eq (Some (JNum a)) (Some (JNum b)) = (a = b)"
| "strict_eq (Some (JStr a)) (Some (JStr b)) = (a = b)"
| "strict_eq _ _ = False"

text \<open>Decimal notation of a number, as \<^verbatim>\<open>String(n)\<close> writes an integer.\<close>

function show_nat :: "nat \<Rightarrow> string" where
  "show_nat n = (if n < 10 then [digit_char n] else show_nat (n div 10) @ [digit_char (n mod 10)])"
  by pat_completeness auto
termination
  by (relation "measure id") auto

declare show_nat.simps [simp del]

definition show_int :: "int \<Rightarrow> string" where
  "show_int i = (if i < 0 then CHR ''-'' # show_nat (nat (- i)) else show_nat (nat i))"

fun join :: "string \<Rightarrow> string list \<Rightarrow> string" where
  "join sep [] = []"
| "join sep [x] = x"
| "join sep (x # y # ys) = x @ sep @ join sep (y # ys)"

text \<open>
  The string a value turns into in a template literal or as the argument of
  \<^verbatim>\<open>RegExp.prototype.test\<close>.  An array joins its elements with commas, a
  \<^verbatim>\<open>null\<close> element giving the empty string.
\<close>

fun to_string :: "json \<Rightarrow> string" where
  "to_string JNull = ''null''"
| "to_string (JBool b) = (if b then ''true'' else ''false'')"
| "to_string (JNum n) = show_int n"
| "to_string (JStr s) = s"
| "to_string (JArr xs) = join '','' (map (\<lambda>x. if x = JNull then [] else to_string x) xs)"
| "to_string (JObj fs) = ''[object Object]''"

definition to_string_opt :: "json option \<Rightarrow> string" where
  "to_string_opt v = (case v of None \<Rightarrow> ''undefined'' | Some x \<Rightarrow> to_string x)"

section \<open>Requests, responses and the upstream service\<close>

text \<open>
  The request as the platform hands it over: its method and its parsed JSON body
  (\<^verbatim>\<open>undefined\<close> when there is none).
\<close>

datatype request = Request (http_method: string) (body: "json option")

text \<open>
  A field of the request body: \<^verbatim>\<open>undefined\<close> when the body is not an object or has no
  such field.
\<close>

definition body_field :: "request \<Rightarrow> string \<Rightarrow> json option" where
  "body_field req k = (case body req of Some (JObj fs) \<Rightarrow> map_of fs k | _ \<Rightarrow> None)"

datatype content = NoContent | Text string | Json json

text \<open>
  What the handler sends: the status, the headers it set with \<^verbatim>\<open>setHeader\<close>, in
  order, and what \<^verbatim>\<open>end\<close> or \<^verbatim>\<open>json\<close> was given.
\<close>

datatype response = Response (status: nat) (headers: "(string \<times> string) list") (content: content)

text \<open>The four variables of \<^verbatim>\<open>process.env\<close> the handlers read.\<close>

datatype env = Env
  (MEWS_CLIENT_TOKEN: "string option")
  (MEWS_ACCESS_TOKEN: "string option")
  (MEWS_CONNECTOR_API_URL: "string option")
  (MEWS_SERVICE_ID: "string option")

text \<open>\<^verbatim>\<open>!v\<close> for a variable of the environment: unset or empty.\<close>

definition env_missing :: "string option \<Rightarrow> bool" where
  "env_missing v \<longleftrightarrow> v = None \<or> v = Some []"

text \<open>The configuration is complete: none of the four variables is missing.\<close>

definition configured :: "env \<Rightarrow> bool" where
  "configured e \<longleftrightarrow>
     \<not> env_missing (MEWS_CLIENT_TOKEN e) \<and> \<not> env_missing (MEWS_ACCESS_TOKEN e)
     \<and> \<not> env_missing (MEWS_SERVICE_ID e) \<and> \<not> env_missing (MEWS_CONNECTOR_API_URL e)"

datatype mews_payload = Payload
  (ClientToken: string)
  (AccessToken: string)
  (Client: string)
  (ServiceId: string)
  (FirstTimeUnitStartUtc: string)
  (LastTimeUnitStartUtc: string)

text \<open>
  The answer of \<^verbatim>\<open>fetch\<close>: the promise is rejected (a network failure), or it
  resolves to a response with a status, the text of its body and what parsing that
  text as JSON gives (a \<^verbatim>\<open>SyntaxError\<close> for a malformed body).  The upstream
  service is a function from the endpoint and the payload posted to the answer.
\<close>

datatype upstream_response = UpstreamResponse (up_status: nat) (up_text: string) (up_json: "js_error + json")

datatype fetch_result = Rejected js_error | Resolved upstream_response

type_synonym upstream = "string \<Rightarrow> mews_payload \<Rightarrow> fetch_result"

definition ok :: "upstream_response \<Rightarrow> bool" where
  "ok r \<longleftrightarrow> 200 \<le> up_status r \<and> up_status r \<le> 299"

text \<open>
  What reaches the operator: the calls of \<^verbatim>\<open>console.warn\<close> and
  \<^verbatim>\<open>console.error\<close>, each with the text or the values its message is built
  from (the list of keys of an unexpected response apart).  The informative
  \<^verbatim>\<open>console.log\<close> lines are left out.
\<close>

datatype event =
    ConfigMissing
  | BodyError string
  | UpstreamErrorBody string
  | DataMismatch string nat
  | CategoryNotFound string
  | StructureUnexpected
  | ExecutionError string
  | FormatError string
  | AttemptException nat string
  | AllAttemptsFailed

text \<open>
  A run of a handler ends with a reply, or with an exception nothing caught.  Its
  outcome also records the calls made to the upstream service, in order, and the
  events logged.
\<close>

datatype reply = Replied response | Unhandled js_error

datatype outcome = Outcome (reply: reply) (calls: "(string \<times> mews_payload) list") (log: "event list")

section \<open>What the handlers share\<close>

text \<open>The answers to \<^verbatim>\<open>OPTIONS\<close> and to a method that is not \<^verbatim>\<open>POST\<close>.\<close>

definition options_response :: response where
  "options_response =
     Response 204
       [(''Access-Control-Allow-Origin'', ''*''),
        (''Access-Control-Allow-Methods'', ''POST, OPTIONS''),
        (''Access-Control-Allow-Headers'', ''Content-Type'')]
       NoContent"

definition not_allowed_response :: "string \<Rightarrow> response" where
  "not_allowed_response m =
     Response 405 [(''Allow'', ''POST'')] (Text (''Method '' @ m @ '' Not Allowed''))"

definition error_response :: "nat \<Rightarrow> string \<Rightarrow> response" where
  "error_response code msg = Response code [] (Json (JObj [(''error'', JStr msg)]))"

definition success_headers :: "(string \<times> string) list" where
  "success_headers =
     [(''Access-Control-Allow-Origin'', ''*''), (''Content-Type'', ''application/json'')]"

text \<open>
  Step 3 of every handler: the three fields are taken out of the body and checked.
  Destructuring \<^verbatim>\<open>undefined\<close> or \<^verbatim>\<open>null\<close> throws a \<^verbatim>\<open>TypeError\<close>; a field that
  is missing, falsy or, for the dates, does not match the pattern once turned into a
  string, throws the \<^verbatim>\<open>Error\<close> of the handler.  The \<^verbatim>\<open>catch\<close> answers 400 with the
  message of the error.
\<close>

definition invalid_parameters :: string where
  "invalid_parameters =
     ''Missing or invalid parameters: villaId, startDate, endDate required (YYYY-MM-DD).''"

definition read_body :: "json option \<Rightarrow> js_error + (json \<times> json \<times> json)" where
  "read_body b =
     (case b of
        None \<Rightarrow> Inl (TypeError
          ''Cannot destructure property 'villaId' of 'request.body' as it is undefined.'')
      | Some JNull \<Rightarrow> Inl (TypeError
          ''Cannot destructure property 'villaId' of 'request.body' as it is null.'')
      | Some v \<Rightarrow>
          (case (get_prop v ''villaId'', get_prop v ''startDate'', get_prop v ''endDate'') of
             (Inr (Some villaId), Inr (Some startDate), Inr (Some endDate)) \<Rightarrow>
               if \<not> truthy (Some villaId) \<or> \<not> truthy (Some startDate) \<or> \<not> truthy (Some endDate)
                  \<or> \<not> date_pattern (to_string startDate) \<or> \<not> date_pattern (to_string endDate)
               then Inl (Error invalid_parameters)
               else Inr (villaId, startDate, endDate)
           | _ \<Rightarrow> Inl (Error invalid_parameters)))"

definition body_error_response :: "js_error \<Rightarrow> response" where
  "body_error_response e =
     error_response 400 (if message e = [] then ''Invalid request body.'' else message e)"

section \<open>The handler with the workaround\<close>

text \<open>
  The variant the README describes: boundaries at 22:00 UTC and the workaround for
  the missing last day.  \<^verbatim>\<open>formatToMewsRequiredTime\<close> is called outside the
  \<^verbatim>\<open>try\<close> block: an exception it threw would be caught by nothing.
\<close>

definition formatToMewsRequiredTime :: "json \<Rightarrow> js_error + string" where
  "formatToMewsRequiredTime dateString =
     (if \<not> date_pattern (to_string dateString)
      then Inl (Error (''Invalid date format: '' @ to_string dateString @ ''. Expected YYYY-MM-DD.''))
      else Inr (to_string dateString @ ''T22:00:00.000Z''))"

text \<open>
  The endpoint and the payload of the call, as each handler builds them from the
  environment and the two boundaries.
\<close>

definition mewsPayload :: "env \<Rightarrow> string \<Rightarrow> string \<Rightarrow> mews_payload" where
  "mewsPayload e firstTimeUnitStartUtc lastTimeUnitStartUtc =
     Payload (the (MEWS_CLIENT_TOKEN e)) (the (MEWS_ACCESS_TOKEN e))
       ''Kosmos_Availability_Check_1.0'' (the (MEWS_SERVICE_ID e))
       firstTimeUnitStartUtc lastTimeUnitStartUtc"

definition mewsEndpoint :: "env \<Rightarrow> string" where
  "mewsEndpoint e = the (MEWS_CONNECTOR_API_URL e) @ ''/api/connector/v1/services/getAvailability''"

text \<open>\<^verbatim>\<open>CategoryAvailabilities.find(catAvail => catAvail.CategoryId === targetCategoryId)\<close>\<close>

fun find_category :: "json \<Rightarrow> json list \<Rightarrow> js_error + json option" where
  "find_category targetCategoryId [] = Inr None"
| "find_category targetCategoryId (catAvail # rest) =
     (case get_prop catAvail ''CategoryId'' of
        Inl e \<Rightarrow> Inl e
      | Inr v \<Rightarrow>
          if strict_eq v (Some targetCategoryId) then Inr (Some catAvail)
          else find_category targetCategoryId rest)"

definition nth_opt :: "'a list \<Rightarrow> nat \<Rightarrow> 'a option" where
  "nth_opt xs i = (if i < length xs then Some (xs ! i) else None)"

text \<open>\<^verbatim>\<open>dateUtc.substring(0, 10)\<close>: a value that is not a string has no such method.\<close>

fun substring_0_10 :: "json \<Rightarrow> js_error + string" where
  "substring_0_10 (JStr s) = Inr (take 10 s)"
| "substring_0_10 JNull = Inl (TypeError ''Cannot read properties of null (reading 'substring')'')"
| "substring_0_10 _ = Inl (TypeError ''dateUtc.substring is not a function'')"

text \<open>
  The \<^verbatim>\<open>forEach\<close> over the time units: the arguments are the availabilities of the
  category, the time units from \<open>index\<close> on, the index, and the set built so far.
\<close>

fun mark_unavailable :: "json list \<Rightarrow> json list \<Rightarrow> nat \<Rightarrow> string list \<Rightarrow> js_error + string list" where
  "mark_unavailable availabilities [] index initialUnavailableDates = Inr initialUnavailableDates"
| "mark_unavailable availabilities (dateUtc # rest) index initialUnavailableDates =
     (let availableCount = nth_opt availabilities index in
      case substring_0_10 dateUtc of
        Inl e \<Rightarrow> Inl e
      | Inr dateString \<Rightarrow>
          mark_unavailable availabilities rest (index + 1)
            (case availableCount of
               Some (JNum n) \<Rightarrow>
                 if n \<le> 0 then set_add dateString initialUnavailableDates
                 else initialUnavailableDates
             | _ \<Rightarrow> initialUnavailableDates))"

text \<open>
  Step 6: the initial set of unavailable dates read from the upstream data, with the
  warnings logged on the way.  \<^verbatim>\<open>mewsData[timeUnitField]\<close> is the value already read
  under the name chosen, \<open>timeUnits\<close>.
\<close>

definition process_response :: "json \<Rightarrow> json \<Rightarrow> js_error + (string list \<times> event list)" where
  "process_response targetCategoryId mewsData =
     (case get_prop mewsData ''TimeUnitStartsUtc'' of
        Inl e \<Rightarrow> Inl e
      | Inr tus \<Rightarrow>
     (case get_prop mewsData ''DatesUtc'' of
        Inl e \<Rightarrow> Inl e
      | Inr dus \<Rightarrow>
     (case get_prop mewsData ''CategoryAvailabilities'' of
        Inl e \<Rightarrow> Inl e
      | Inr cas \<Rightarrow>
        (let timeUnitField =
               (if truthy tus then Some ''TimeUnitStartsUtc''
                else if truthy dus then Some ''DatesUtc'' else None);
             timeUnits = (if truthy tus then tus else if truthy dus then dus else None)
         in case (cas, timeUnits) of
              (Some (JArr categoryAvailabilities), Some (JArr datesArray)) \<Rightarrow>
                (case find_category targetCategoryId categoryAvailabilities of
                   Inl e \<Rightarrow> Inl e
                 | Inr None \<Rightarrow> Inr ([], [CategoryNotFound (to_string targetCategoryId)])
                 | Inr (Some targetCategoryData) \<Rightarrow>
                     (case get_prop targetCategoryData ''Availabilities'' of
                        Inl e \<Rightarrow> Inl e
                      | Inr (Some (JArr availabilities)) \<Rightarrow>
                          if length availabilities = length datesArray
                          then (case mark_unavailable availabilities datesArray 0 [] of
                                  Inl e \<Rightarrow> Inl e
                                | Inr initialUnavailableDates \<Rightarrow> Inr (initialUnavailableDates, []))
                          else Inr ([], [DataMismatch (to_string targetCategoryId) (length datesArray)])
                      | Inr _ \<Rightarrow>
                          Inr ([], [DataMismatch (to_string targetCategoryId) (length datesArray)])))
            | _ \<Rightarrow> Inr ([], [StructureUnexpected])))))"

text \<open>
  What the \<^verbatim>\<open>try\<close> block around the call computes from the answer of
  \<^verbatim>\<open>fetch\<close>: the array to send and the events logged, or the exception thrown with
  the events logged before it.
\<close>

definition upstream_failure_message :: "upstream_response \<Rightarrow> js_error + string" where
  "upstream_failure_message r =
     (let errorBodyText = up_text r;
          errorJson = (case up_json r of Inl e \<Rightarrow> JObj [] | Inr v \<Rightarrow> v)
      in case get_prop errorJson ''Message'' of
           Inl e \<Rightarrow> Inl e
         | Inr m \<Rightarrow>
             Inr (''Mews API request failed with status '' @ show_nat (up_status r)
                  @ ''. Message: '' @ (if truthy m then to_string_opt m else errorBodyText)))"

definition resolve :: "json \<Rightarrow> fetch_result \<Rightarrow> (js_error + string list) \<times> event list" where
  "resolve villaId answer =
     (case answer of
        Rejected e \<Rightarrow> (Inl e, [])
      | Resolved mewsApiResponse \<Rightarrow>
          if \<not> ok mewsApiResponse then
            (case upstream_failure_message mewsApiResponse of
               Inl e \<Rightarrow> (Inl e, [UpstreamErrorBody (up_text mewsApiResponse)])
             | Inr msg \<Rightarrow> (Inl (Error msg), [UpstreamErrorBody (up_text mewsApiResponse)]))
          else
            (case up_json mewsApiResponse of
               Inl e \<Rightarrow> (Inl e, [])
             | Inr mewsData \<Rightarrow>
                 (case process_response villaId mewsData of
                    Inl e \<Rightarrow> (Inl e, [])
                  | Inr (initialUnavailableDates, warnings) \<Rightarrow>
                      (case workaround initialUnavailableDates of
                         Inl e \<Rightarrow> (Inl e, warnings)
                       | Inr finalUnavailableArray \<Rightarrow> (Inr finalUnavailableArray, warnings)))))"

definition unavailable_response :: "string list \<Rightarrow> response" where
  "unavailable_response dates =
     Response 200 success_headers (Json (JObj [(''unavailable'', JArr (map JStr dates))]))"

definition internal_error_response :: "js_error \<Rightarrow> response" where
  "internal_error_response e =
     Response 500 []
       (Json (JObj [(''error'', JStr ''An internal server error occurred.''),
                    (''details'', JStr (message e))]))"

definition handler :: "env \<Rightarrow> upstream \<Rightarrow> request \<Rightarrow> outcome" where
  "handler environment fetch req =
     (if http_method req = ''OPTIONS'' then Outcome (Replied options_response) [] []
      else if http_method req \<noteq> ''POST'' then Outcome (Replied (not_allowed_response (http_method req))) [] []
      else if env_missing (MEWS_CLIENT_TOKEN environment) \<or> env_missing (MEWS_ACCESS_TOKEN environment)
              \<or> env_missing (MEWS_SERVICE_ID environment) \<or> env_missing (MEWS_CONNECTOR_API_URL environment)
      then Outcome (Replied (error_response 500 ''Server configuration error.'')) [] [ConfigMissing]
      else
        (case read_body (body req) of
           Inl e \<Rightarrow> Outcome (Replied (body_error_response e)) [] [BodyError (message e)]
         | Inr (villaId, startDate, endDate) \<Rightarrow>
             (case formatToMewsRequiredTime startDate of
                Inl e \<Rightarrow> Outcome (Unhandled e) [] [FormatError (message e)]
              | Inr firstTimeUnitStartUtc \<Rightarrow>
             (case formatToMewsRequiredTime endDate of
                Inl e \<Rightarrow> Outcome (Unhandled e) [] [FormatError (message e)]
              | Inr lastTimeUnitStartUtc \<Rightarrow>
                 (let payload = mewsPayload environment firstTimeUnitStartUtc lastTimeUnitStartUtc;
                      call = (mewsEndpoint environment, payload)
                  in case resolve villaId (fetch (mewsEndpoint environment) payload) of
                       (Inl e, events) \<Rightarrow>
                         Outcome (Replied (internal_error_response e)) [call]
                           (events @ [ExecutionError (message e)])
                     | (Inr finalUnavailableArray, events) \<Rightarrow>
                         Outcome (Replied (unavailable_response finalUnavailableArray)) [call] events)))))"

section \<open>The handler with the 15:00 boundary\<close>

text \<open>
  \<^verbatim>\<open>src/api/mews-availability.js\<close>: boundaries at 15:00 UTC, checked by building a
  \<^verbatim>\<open>Date\<close>, with a fallback to midnight when the date is invalid; no workaround,
  and the array is sent in the order of insertion.
\<close>

definition formatToMewsUtc :: "json \<Rightarrow> string \<times> event list" where
  "formatToMewsUtc dateString =
     (let startTime = ''15:00:00'';
          dateTimeString = to_string dateString @ ''T'' @ startTime @ ''.000Z''
      in case Date_parse dateTimeString of
           None \<Rightarrow>
             (to_string dateString @ ''T00:00:00.000Z'',
              [FormatError (''Invalid combined date-time: '' @ dateTimeString)])
         | Some dt \<Rightarrow> (toISOString dt, []))"

text \<open>
  Reading \<^verbatim>\<open>length\<close> and an index from a value, and \<^verbatim>\<open>v <= 0\<close>, which turns
  \<open>v\<close> into a number first.  How a string is read as a number is not modelled: the
  comparison of a string with zero is the parameter \<open>str_le0\<close>.
\<close>

fun js_length :: "json \<Rightarrow> json option" where
  "js_length (JArr xs) = Some (JNum (int (length xs)))"
| "js_length (JStr s) = Some (JNum (int (length s)))"
| "js_length (JObj fs) = map_of fs ''length''"
| "js_length _ = None"

fun js_index :: "json \<Rightarrow> nat \<Rightarrow> json option" where
  "js_index (JArr xs) i = nth_opt xs i"
| "js_index (JStr s) i = map_option (\<lambda>c. JStr [c]) (nth_opt s i)"
| "js_index (JObj fs) i = map_of fs (show_nat i)"
| "js_index _ i = None"

fun js_le_zero :: "(string \<Rightarrow> bool) \<Rightarrow> json option \<Rightarrow> bool" where
  "js_le_zero str_le0 None = False"
| "js_le_zero str_le0 (Some JNull) = True"
| "js_le_zero str_le0 (Some (JBool b)) = (\<not> b)"
| "js_le_zero str_le0 (Some (JNum n)) = (n \<le> 0)"
| "js_le_zero str_le0 (Some (JStr s)) = str_le0 s"
| "js_le_zero str_le0 (Some (JArr xs)) = str_le0 (to_string (JArr xs))"
| "js_le_zero str_le0 (Some (JObj fs)) = False"

fun mark_nonpositive ::
  "(string \<Rightarrow> bool) \<Rightarrow> json \<Rightarrow> json list \<Rightarrow> nat \<Rightarrow> string list \<Rightarrow> js_error + string list" where
  "mark_nonpositive str_le0 availabilities [] index unavailableDates = Inr unavailableDates"
| "mark_nonpositive str_le0 availabilities (dateUtc # rest) index unavailableDates =
     (let availableCount = js_index availabilities index in
      case substring_0_10 dateUtc of
        Inl e \<Rightarrow> Inl e
      | Inr dateString \<Rightarrow>
          mark_nonpositive str_le0 availabilities rest (index + 1)
            (if js_le_zero str_le0 availableCount then set_add dateString unavailableDates
             else unavailableDates))"

text \<open>
  \<^verbatim>\<open>processAvailabilityData\<close>; the handler of \<^verbatim>\<open>src/api/mews-availability.js\<close> has
  the same statements in line.
\<close>

definition processAvailabilityData ::
  "(string \<Rightarrow> bool) \<Rightarrow> json \<Rightarrow> json \<Rightarrow> js_error + (string list \<times> event list)" where
  "processAvailabilityData str_le0 mewsData targetCategoryId =
     (case get_prop mewsData ''CategoryAvailabilities'' of
        Inl e \<Rightarrow> Inl e
      | Inr cas \<Rightarrow>
     (case get_prop mewsData ''TimeUnitStartsUtc'' of
        Inl e \<Rightarrow> Inl e
      | Inr tus \<Rightarrow>
        (case (cas, tus) of
           (Some (JArr categoryAvailabilities), Some (JArr timeUnitStartsUtc)) \<Rightarrow>
             (case find_category targetCategoryId categoryAvailabilities of
                Inl e \<Rightarrow> Inl e
              | Inr None \<Rightarrow> Inr ([], [CategoryNotFound (to_string targetCategoryId)])
              | Inr (Some targetCategoryData) \<Rightarrow>
                  (case get_prop targetCategoryData ''Availabilities'' of
                     Inl e \<Rightarrow> Inl e
                   | Inr av \<Rightarrow>
                       if truthy av \<and>
                          strict_eq (js_length (the av)) (Some (JNum (int (length timeUnitStartsUtc))))
                       then (case mark_nonpositive str_le0 (the av) timeUnitStartsUtc 0 [] of
                               Inl e \<Rightarrow> Inl e
                             | Inr unavailableDates \<Rightarrow> Inr (unavailableDates, []))
                       else Inr ([], [DataMismatch (to_string targetCategoryId)
                                        (length timeUnitStartsUtc)])))
         | _ \<Rightarrow> Inr ([], [StructureUnexpected]))))"

definition generic_error_response :: response where
  "generic_error_response = error_response 500 ''An internal server error occurred.''"

definition resolve_T15 ::
  "(string \<Rightarrow> bool) \<Rightarrow> json \<Rightarrow> fetch_result \<Rightarrow> (js_error + string list) \<times> event list" where
  "resolve_T15 str_le0 villaId answer =
     (case answer of
        Rejected e \<Rightarrow> (Inl e, [])
      | Resolved mewsApiResponse \<Rightarrow>
          if \<not> ok mewsApiResponse then
            (Inl (Error (''Mews API request failed with status '' @ show_nat (up_status mewsApiResponse))),
             [UpstreamErrorBody (up_text mewsApiResponse)])
          else
            (case up_json mewsApiResponse of
               Inl e \<Rightarrow> (Inl e, [])
             | Inr mewsData \<Rightarrow>
                 (case processAvailabilityData str_le0 mewsData villaId of
                    Inl e \<Rightarrow> (Inl e, [])
                  | Inr (unavailableDates, warnings) \<Rightarrow> (Inr unavailableDates, warnings))))"

definition handler_T15 :: "(string \<Rightarrow> bool) \<Rightarrow> env \<Rightarrow> upstream \<Rightarrow> request \<Rightarrow> outcome" where
  "handler_T15 str_le0 environment fetch req =
     (if http_method req = ''OPTIONS'' then Outcome (Replied options_response) [] []
      else if http_method req \<noteq> ''POST'' then Outcome (Replied (not_allowed_response (http_method req))) [] []
      else if env_missing (MEWS_CLIENT_TOKEN environment) \<or> env_missing (MEWS_ACCESS_TOKEN environment)
              \<or> env_missing (MEWS_SERVICE_ID environment) \<or> env_missing (MEWS_CONNECTOR_API_URL environment)
      then Outcome (Replied (error_response 500 ''Server configuration error.'')) [] [ConfigMissing]
      else
        (case read_body (body req) of
           Inl e \<Rightarrow> Outcome (Replied (body_error_response e)) [] [BodyError (message e)]
         | Inr (villaId, startDate, endDate) \<Rightarrow>
             (case (formatToMewsUtc startDate, formatToMewsUtc endDate) of
                ((firstTimeUnitStartUtc, events1), (lastTimeUnitStartUtc, events2)) \<Rightarrow>
                  (let payload = mewsPayload environment firstTimeUnitStartUtc lastTimeUnitStartUtc;
                       call = (mewsEndpoint environment, payload)
                   in case resolve_T15 str_le0 villaId (fetch (mewsEndpoint environment) payload) of
                        (Inl e, events) \<Rightarrow>
                          Outcome (Replied generic_error_response) [call]
                            (events1 @ events2 @ events @ [ExecutionError (message e)])
                      | (Inr unavailableDates, events) \<Rightarrow>
                          Outcome (Replied (unavailable_response unavailableDates)) [call]
                            (events1 @ events2 @ events)))))"

section \<open>The handler that probes the hours\<close>

text \<open>
  The variant that tries each hour from 0 to 23 as the boundary until the upstream
  service accepts one.
\<close>

definition padStart :: "nat \<Rightarrow> char \<Rightarrow> string \<Rightarrow> string" where
  "padStart n c s = replicate (n - length s) c @ s"

definition formatTimeWithHour :: "json \<Rightarrow> nat \<Rightarrow> string" where
  "formatTimeWithHour dateString hour =
     (let formattedHour = padStart 2 CHR ''0'' (show_nat hour)
      in to_string dateString @ ''T'' @ formattedHour @ '':00:00.000Z'')"

definition probing_success_response :: "string list \<Rightarrow> nat \<Rightarrow> response" where
  "probing_success_response dates hour =
     Response 200 success_headers
       (Json (JObj [(''unavailable'', JArr (map JStr dates)),
                    (''_debug'', JObj [(''workingHour'', JNum (int hour)),
                                       (''workingTimeFormat'', JStr (show_nat hour @ '':00:00 UTC''))])]))"

definition probing_failure_response :: response where
  "probing_failure_response =
     Response 500 []
       (Json (JObj [(''error'', JStr ''Could not find a valid time format for Mews API.''),
                    (''_debug'', JStr (''Tried all 24 hours (0-23) and none were accepted as valid 'start of TimeUnit''
                                       @ [CHR 0x27]))]))"

text \<open>
  The loop over \<^verbatim>\<open>possibleHours\<close>: the hours still to try, then the calls made and
  the events logged so far.  An answer that is not a success, and any exception, lets
  the loop go on to the next hour.
\<close>

fun try_hours ::
  "(string \<Rightarrow> bool) \<Rightarrow> env \<Rightarrow> upstream \<Rightarrow> json \<Rightarrow> json \<Rightarrow> json \<Rightarrow> nat list
     \<Rightarrow> (string \<times> mews_payload) list \<Rightarrow> event list \<Rightarrow> outcome" where
  "try_hours str_le0 environment fetch villaId startDate endDate [] made events =
     Outcome (Replied probing_failure_response) made (events @ [AllAttemptsFailed])"
| "try_hours str_le0 environment fetch villaId startDate endDate (hour # rest) made events =
     (let formattedStartDate = formatTimeWithHour startDate hour;
          formattedEndDate = formatTimeWithHour endDate hour;
          payload = mewsPayload environment formattedStartDate formattedEndDate;
          made' = made @ [(mewsEndpoint environment, payload)]
      in case fetch (mewsEndpoint environment) payload of
           Rejected e \<Rightarrow>
             try_hours str_le0 environment fetch villaId startDate endDate rest made'
               (events @ [AttemptException hour (message e)])
         | Resolved mewsApiResponse \<Rightarrow>
             if ok mewsApiResponse then
               (case up_json mewsApiResponse of
                  Inl e \<Rightarrow>
                    try_hours str_le0 environment fetch villaId startDate endDate rest made'
                      (events @ [AttemptException hour (message e)])
                | Inr mewsData \<Rightarrow>
                    (case processAvailabilityData str_le0 mewsData villaId of
                       Inl e \<Rightarrow>
                         try_hours str_le0 environment fetch villaId startDate endDate rest made'
                           (events @ [AttemptException hour (message e)])
                     | Inr (unavailableDates, warnings) \<Rightarrow>
                         Outcome (Replied (probing_success_response unavailableDates hour)) made'
                           (events @ warnings)))
             else
               try_hours str_le0 environment fetch villaId startDate endDate rest made' events)"

definition handler_probing :: "(string \<Rightarrow> bool) \<Rightarrow> env \<Rightarrow> upstream \<Rightarrow> request \<Rightarrow> outcome" where
  "handler_probing str_le0 environment fetch req =
     (if http_method req = ''OPTIONS'' then Outcome (Replied options_response) [] []
      else if http_method req \<noteq> ''POST'' then Outcome (Replied (not_allowed_response (http_method req))) [] []
      else if env_missing (MEWS_CLIENT_TOKEN environment) \<or> env_missing (MEWS_ACCESS_TOKEN environment)
              \<or> env_missing (MEWS_SERVICE_ID environment) \<or> env_missing (MEWS_CONNECTOR_API_URL environment)
      then Outcome (Replied (error_response 500 ''Server configuration error.'')) [] [ConfigMissing]
      else
        (case read_body (body req) of
           Inl e \<Rightarrow> Outcome (Replied (body_error_response e)) [] [BodyError (message e)]
         | Inr (villaId, startDate, endDate) \<Rightarrow>
             try_hours str_le0 environment fetch villaId startDate endDate [0..<24] [] []))"

section \<open>The calendar\<close>

text \<open>
  The reference the workaround is measured against: a day of the Gregorian calendar
  as year, month and day of the month, the day that follows it, and its
  \<^verbatim>\<open>YYYY-MM-DD\<close> form.  A calendar day has a year of at most 9999, the years
  this form can write.
\<close>

fun calendar_day :: "nat \<times> nat \<times> nat \<Rightarrow> bool" where
  "calendar_day (y, m, d) \<longleftrightarrow>
     y \<le> 9999 \<and> 1 \<le> m \<and> m \<le> 12 \<and> 1 \<le> d \<and> d \<le> days_in_month y m"

fun day_after :: "nat \<times> nat \<times> nat \<Rightarrow> nat \<times> nat \<times> nat" where
  "day_after (y, m, d) =
     (if d < days_in_month y m then (y, m, d + 1)
      else if m < 12 then (y, m + 1, 1)
      else (y + 1, 1, 1))"

fun iso_date :: "nat \<times> nat \<times> nat \<Rightarrow> string" where
  "iso_date (y, m, d) = zero_pad 4 y @ ''-'' @ zero_pad 2 m @ ''-'' @ zero_pad 2 d"

text \<open>The run of \<open>k\<close> consecutive calendar days that starts at \<open>t\<close>.\<close>

definition run_of_days :: "nat \<times> nat \<times> nat \<Rightarrow> nat \<Rightarrow> (nat \<times> nat \<times> nat) list" where
  "run_of_days t k = map (\<lambda>i. (day_after ^^ i) t) [0..<k]"

section \<open>Digits\<close>

lemma digit_cases: "k < 10 \<Longrightarrow> k = 0 \<or> k = 1 \<or> k = 2 \<or> k = 3 \<or> k = 4 \<or> k = 5 \<or> k = 6 \<or> k = 7 \<or> k = 8 \<or> k = (9::nat)"
  by arith

lemma digit_val_digit_char: "k < 10 \<Longrightarrow> digit_val (digit_char k) = k"
  by (drule digit_cases) (auto simp: digit_char_def digit_val_def)

lemma is_digit_digit_char: "k < 10 \<Longrightarrow> is_digit (digit_char k)"
  by (drule digit_cases) (auto simp: digit_char_def is_digit_def)

lemma digit_char_less: "a < b \<Longrightarrow> b < 10 \<Longrightarrow> digit_char a < digit_char b"
proof -
  assume ab: "a < b" and b: "b < 10"
  then have a: "a < 10" by simp
  have "of_char (digit_char k) = 48 + k" if "k < 10" for k
    using digit_cases [OF that] by (auto simp: digit_char_def)
  from this [OF a] this [OF b] ab show ?thesis by (simp add: less_char_def)
qed

lemma length_zero_pad [simp]: "length (zero_pad w n) = w"
  by (induction w arbitrary: n) auto

lemma digits_zero_pad: "list_all is_digit (zero_pad w n)"
  by (induction w arbitrary: n) (auto simp: is_digit_digit_char)

lemma digits_val_snoc: "digits_val (xs @ [c]) = 10 * digits_val xs + digit_val c"
  by (simp add: digits_val_def)

lemma digits_val_zero_pad: "n < 10 ^ w \<Longrightarrow> digits_val (zero_pad w n) = n"
proof (induction w arbitrary: n)
  case 0
  then show ?case by (simp add: digits_val_def)
next
  case (Suc w)
  then have "n div 10 < 10 ^ w" by (simp add: less_mult_imp_div_less mult.commute)
  with Suc.IH have "digits_val (zero_pad w (n div 10)) = n div 10" by simp
  then show ?case by (simp add: digits_val_snoc digit_val_digit_char)
qed

lemma zero_pad_less: "a < b \<Longrightarrow> b < 10 ^ w \<Longrightarrow> zero_pad w a < zero_pad w b"
proof (induction w arbitrary: a b)
  case 0
  then show ?case by simp
next
  case (Suc w)
  have b10: "b div 10 < 10 ^ w" using Suc.prems(2) by (simp add: less_mult_imp_div_less mult.commute)
  consider "a div 10 < b div 10" | "a div 10 = b div 10" "a mod 10 < b mod 10"
    using Suc.prems(1) by (metis div_le_mono le_neq_implies_less less_imp_le_nat mod_div_decomp nat_add_left_cancel_less)
  then show ?case
  proof cases
    case 1
    from Suc.IH [OF 1 b10] have "(zero_pad w (a div 10), zero_pad w (b div 10)) \<in> lexord {(u, v). u < v}"
      by (simp add: list_less_def)
    then have "(zero_pad w (a div 10) @ [digit_char (a mod 10)], zero_pad w (b div 10) @ [digit_char (b mod 10)]) \<in> lexord {(u, v). u < v}"
      by (rule lexord_sufI) simp
    then show ?thesis by (simp add: list_less_def)
  next
    case 2
    have "digit_char (a mod 10) < digit_char (b mod 10)"
      by (rule digit_char_less [OF 2(2)]) simp
    then have "(zero_pad w (b div 10) @ digit_char (a mod 10) # [], zero_pad w (b div 10) @ digit_char (b mod 10) # []) \<in> lexord {(u, v). u < v}"
      by (intro lexord_append_left_rightI) simp
    with 2(1) show ?thesis by (simp add: list_less_def)
  qed
qed

text \<open>Unfolding a field of a width given as a numeral.\<close>

lemma zero_pad_numeral: "zero_pad (numeral k) n = zero_pad (pred_numeral k) (n div 10) @ [digit_char (n mod 10)]"
  unfolding numeral_eq_Suc[of k] by simp

section \<open>The Date object and the calendar\<close>

lemma take_iso: "take 10 (iso_date t @ r) = iso_date t"
  by (cases t) simp
lemma drop_iso: "drop 10 (iso_date t @ r) = r"
  by (cases t) simp
lemma date_pattern_iso: "date_pattern (iso_date t)"
  by (cases t) (simp add: date_pattern_def digits_zero_pad nth_append)
lemma iso_fields:
  "take 4 (iso_date (y, m, d)) = zero_pad 4 y"
  "take 2 (drop 5 (iso_date (y, m, d))) = zero_pad 2 m"
  "drop 8 (iso_date (y, m, d)) = zero_pad 2 d"
  by simp_all
lemma time_pattern_midnight: "time_pattern ''T00:00:00Z''"
  by (simp add: time_pattern_def is_digit_def)
lemma midnight_fields:
  "digits_val (take 2 (drop 1 ''T00:00:00Z'')) = 0"
  "digits_val (take 2 (drop 4 ''T00:00:00Z'')) = 0"
  "digits_val (take 2 (drop 7 ''T00:00:00Z'')) = 0"
  "length ''T00:00:00Z'' = 10"
  by (simp_all add: digits_val_def digit_val_def)
lemma days_in_month_bounds: "28 \<le> days_in_month y m" "days_in_month y m \<le> 31"
  by (simp_all add: days_in_month_def)
lemma Date_parse_iso:
  assumes "calendar_day (y, m, d)"
  shows "Date_parse (iso_date (y, m, d) @ ''T00:00:00Z'') = Some (Date y m d 0)"
proof -
  from assms have y: "y < 10 ^ 4" and m: "m < 10 ^ 2" and d: "d < 10 ^ 2"
    using days_in_month_bounds(2) [of y m] by auto
  have d31: "d \<le> 31" using assms days_in_month_bounds(2) [of y m] by auto
  have md: "make_day y m d = (y, m, d)" using assms by (simp add: make_day.simps)
  show ?thesis
    unfolding Date_parse_def Let_def take_iso drop_iso iso_fields midnight_fields
      digits_val_zero_pad [OF y] digits_val_zero_pad [OF m] digits_val_zero_pad [OF d] md
    using assms d31 date_pattern_iso [of "(y, m, d)"] by (simp add: time_pattern_midnight)
qed

lemma toISOString_date:
  "y \<le> 9999 \<Longrightarrow> take 10 (toISOString (Date y m d t)) = iso_date (y, m, d)"
  by (simp add: toISOString_def)

lemma make_day_next:
  assumes "calendar_day (y, m, d)"
  shows "make_day y m (d + 1) = day_after (y, m, d)"
proof (cases "d < days_in_month y m")
  case True
  then show ?thesis by (simp add: make_day.simps)
next
  case False
  with assms have d: "d = days_in_month y m" by simp
  have one: "1 \<le> days_in_month y' m'" for y' m'
    using days_in_month_bounds(1) [of y' m'] by simp
  have first: "make_day y' m' 1 = (y', m', 1)" for y' m'
    using one [of y' m'] by (subst make_day.simps) simp
  have "make_day y m (d + 1) = (if m < 12 then make_day y (m + 1) 1 else make_day (y + 1) 1 1)"
    by (subst make_day.simps) (simp add: d)
  with first False show ?thesis by simp
qed

lemma addOneDay_iso:
  assumes "calendar_day t" "calendar_day (day_after t)"
  shows "addOneDay (iso_date t) = Inr (iso_date (day_after t))"
proof -
  obtain y m d where t: "t = (y, m, d)" by (cases t)
  obtain y' m' d' where t': "day_after (y, m, d) = (y', m', d')" by (cases "day_after (y, m, d)")
  from assms(2) t t' have y': "y' \<le> 9999" by simp
  have "make_day y m (d + 1) = (y', m', d')"
    using make_day_next assms(1) t t' by simp
  then show ?thesis
    unfolding t addOneDay_def Date_parse_iso [OF assms(1) [unfolded t]]
    by (simp add: getUTCDate_def setUTCDate_def toISOString_date [OF y'] t' del: iso_date.simps day_after.simps)
qed


lemma iso_date_less_after:
  assumes "calendar_day t" "calendar_day (day_after t)"
  shows "iso_date t < iso_date (day_after t)"
proof -
  obtain y m d where t: "t = (y, m, d)" by (cases t)
  have lt: "zero_pad w a @ r < zero_pad w b @ r'" if "a < b" "b < 10 ^ w" for w a b r r'
  proof -
    from zero_pad_less [OF that] have "(zero_pad w a, zero_pad w b) \<in> lexord {(u, v). u < v}"
      by (simp add: list_less_def)
    then have "(zero_pad w a @ r, zero_pad w b @ r') \<in> lexord {(u, v). u < v}"
      by (rule lexord_sufI) simp
    then show ?thesis by (simp add: list_less_def)
  qed
  have pre: "p @ u < p @ v" if "u < v" for p u v :: string
    using that by (simp add: list_less_def lexord_append_leftI)
  have dim: "days_in_month y m \<le> 31" by (rule days_in_month_bounds)
  consider (day) "d < days_in_month y m" | (month) "\<not> d < days_in_month y m" "m < 12"
    | (year) "\<not> d < days_in_month y m" "\<not> m < 12" by blast
  then show ?thesis
  proof cases
    case day
    have "zero_pad 2 d < zero_pad 2 (d + 1)"
      using zero_pad_less [of d "d + 1" 2] day dim by simp
    from pre [OF this, of "zero_pad 4 y @ ''-'' @ zero_pad 2 m @ ''-''"] day
    show ?thesis unfolding t by simp
  next
    case month
    have "zero_pad 2 m @ ''-'' @ zero_pad 2 d < zero_pad 2 (m + 1) @ ''-'' @ zero_pad 2 1"
      by (rule lt) (use month in simp_all)
    from pre [OF this, of "zero_pad 4 y @ ''-''"] month
    show ?thesis unfolding t by simp
  next
    case year
    from assms(2) year have "y + 1 \<le> 9999" unfolding t by simp
    then have "zero_pad 4 y @ ''-'' @ zero_pad 2 m @ ''-'' @ zero_pad 2 d
        < zero_pad 4 (y + 1) @ ''-'' @ zero_pad 2 1 @ ''-'' @ zero_pad 2 1"
      by (intro lt) simp_all
    with year show ?thesis unfolding t by simp
  qed
qed

section \<open>Properties of the workaround\<close>

lemma addOneDay_error: "addOneDay s = Inl e \<Longrightarrow> e = RangeError ''Invalid time value''"
  by (auto simp: addOneDay_def split: option.splits)

lemma set_set_add: "set (set_add x xs) = insert x (set xs)"
  by (auto simp: set_add_def)

lemma distinct_set_add: "distinct xs \<Longrightarrow> distinct (set_add x xs)"
  by (auto simp: set_add_def)

text \<open>
  One turn of the loop.  The second call of \<^verbatim>\<open>addOneDay\<close> in the test for the end
  of a block returns what the first returned.
\<close>

lemma loop_step:
  "workaround_loop init (c # rest) fin =
     (case addOneDay c of Inl e \<Rightarrow> Inl e
      | Inr n \<Rightarrow> workaround_loop init rest
          (if (rest = [] \<or> n \<noteq> hd rest) \<and> n \<notin> set init then set_add n fin else fin))"
  by (cases rest) (auto split: sum.splits)

declare workaround_loop.simps(2) [simp del]

text \<open>
  A day that follows a date of the array is added unless the initial set has it: where
  the test for the end of a block fails, the day is the next element of the array.
\<close>

lemma loop_set:
  "set xs \<subseteq> set init \<Longrightarrow> workaround_loop init xs fin = Inr out \<Longrightarrow>
     set out = set fin \<union> ({n. \<exists>s\<in>set xs. addOneDay s = Inr n} - set init)"
proof (induction xs arbitrary: fin)
  case Nil
  then show ?case by simp
next
  case (Cons c rest)
  from Cons.prems(2) obtain n where n: "addOneDay c = Inr n"
    by (auto simp: loop_step split: sum.splits)
  let ?fin = "if (rest = [] \<or> n \<noteq> hd rest) \<and> n \<notin> set init then set_add n fin else fin"
  have run: "workaround_loop init rest ?fin = Inr out"
    using Cons.prems(2) n by (simp add: loop_step)
  have sub: "set rest \<subseteq> set init" using Cons.prems(1) by simp
  have hd_in: "rest \<noteq> [] \<Longrightarrow> hd rest \<in> set init"
    using sub by (cases rest) auto
  have fin: "set ?fin = set fin \<union> ({n} - set init)"
    using hd_in by (auto simp: set_set_add)
  have "set out = set ?fin \<union> ({m. \<exists>s\<in>set rest. addOneDay s = Inr m} - set init)"
    by (rule Cons.IH [OF sub run])
  with fin n show ?case by auto
qed

lemma loop_distinct:
  "distinct fin \<Longrightarrow> workaround_loop init xs fin = Inr out \<Longrightarrow> distinct out"
proof (induction xs arbitrary: fin)
  case Nil
  then show ?case by simp
next
  case (Cons c rest)
  from Cons.prems(2) obtain n where n: "addOneDay c = Inr n"
    by (auto simp: loop_step split: sum.splits)
  let ?fin = "if (rest = [] \<or> n \<noteq> hd rest) \<and> n \<notin> set init then set_add n fin else fin"
  have run: "workaround_loop init rest ?fin = Inr out"
    using Cons.prems(2) n by (simp add: loop_step)
  have "distinct ?fin" using Cons.prems(1) by (simp add: distinct_set_add)
  from Cons.IH [OF this run] show ?case .
qed

lemma loop_total:
  "\<forall>s\<in>set xs. \<exists>n. addOneDay s = Inr n \<Longrightarrow> \<exists>out. workaround_loop init xs fin = Inr out"
proof (induction xs arbitrary: fin)
  case Nil
  then show ?case by simp
next
  case (Cons c rest)
  then show ?case by (auto simp: loop_step)
qed

lemma loop_fails:
  "\<exists>s\<in>set xs. \<exists>e. addOneDay s = Inl e \<Longrightarrow>
     workaround_loop init xs fin = Inl (RangeError ''Invalid time value'')"
proof (induction xs arbitrary: fin)
  case Nil
  then show ?case by simp
next
  case (Cons c rest)
  show ?case
  proof (cases "addOneDay c")
    case (Inl e)
    then show ?thesis using addOneDay_error [OF Inl] by (simp add: loop_step)
  next
    case (Inr n)
    with Cons.prems have "\<exists>s\<in>set rest. \<exists>e. addOneDay s = Inl e" by auto
    from Cons.IH [OF this] Inr show ?thesis by (simp add: loop_step)
  qed
qed

lemma workaround_set:
  assumes "workaround raw = Inr out"
  shows "set out = set raw \<union> {n. \<exists>s\<in>set raw. addOneDay s = Inr n}"
proof -
  from assms obtain fin where fin: "workaround_loop raw (sort raw) raw = Inr fin" and out: "out = sort fin"
    by (auto simp: workaround_def split: sum.splits)
  have "set fin = set raw \<union> ({n. \<exists>s\<in>set (sort raw). addOneDay s = Inr n} - set raw)"
    by (rule loop_set [OF _ fin]) simp
  with out show ?thesis by auto
qed

lemma workaround_sorted_distinct:
  assumes "distinct raw" "workaround raw = Inr out"
  shows "sorted out \<and> distinct out"
proof -
  from assms obtain fin where fin: "workaround_loop raw (sort raw) raw = Inr fin" and out: "out = sort fin"
    by (auto simp: workaround_def split: sum.splits)
  from loop_distinct [OF assms(1) fin] out show ?thesis by simp
qed

lemma workaround_total:
  assumes "\<forall>s\<in>set raw. \<exists>n. addOneDay s = Inr n"
  shows "\<exists>out. workaround raw = Inr out"
proof -
  from assms have "\<forall>s\<in>set (sort raw). \<exists>n. addOneDay s = Inr n" by simp
  from loop_total [OF this] obtain fin where "workaround_loop raw (sort raw) raw = Inr fin" by blast
  then show ?thesis by (simp add: workaround_def)
qed

lemma workaround_fails:
  assumes "\<exists>s\<in>set raw. \<exists>e. addOneDay s = Inl e"
  shows "workaround raw = Inl (RangeError ''Invalid time value'')"
proof -
  from assms have "\<exists>s\<in>set (sort raw). \<exists>e. addOneDay s = Inl e" by simp
  from loop_fails [OF this] show ?thesis by (simp add: workaround_def)
qed

section \<open>Evaluation on concrete dates\<close>

lemmas date_eval = addOneDay_def Date_parse_def date_pattern_def time_pattern_def is_digit_def
  digits_val_def digit_val_def getUTCDate_def setUTCDate_def toISOString_def days_in_month_def
  leap_year_def digit_char_def Let_def zero_pad_numeral make_day.simps

lemma addOneDay_calendar_day:
  assumes "calendar_day t"
  shows "\<exists>n. addOneDay (iso_date t) = Inr n"
proof -
  obtain y m d where t: "t = (y, m, d)" by (cases t)
  show ?thesis
    unfolding t addOneDay_def Date_parse_iso [OF assms [unfolded t]] by simp
qed

lemma workaround_example:
  "workaround [''2025-04-03'', ''2025-04-04''] = Inr [''2025-04-03'', ''2025-04-04'', ''2025-04-05'']"
  by (simp add: workaround_def loop_step set_add_def date_eval)


section \<open>Runs of consecutive days\<close>

lemma strict_chain_sorted:
  fixes f :: "nat \<Rightarrow> 'a::linorder"
  assumes "\<And>i. Suc i < n \<Longrightarrow> f i < f (Suc i)"
  shows "sorted_wrt (<) (map f [0..<n])"
proof -
  have mono: "i < j \<Longrightarrow> j < n \<Longrightarrow> f i < f j" for i j
  proof (induction j)
    case 0
    then show ?case by simp
  next
    case (Suc j)
    show ?case
    proof (cases "i = j")
      case True
      with assms [of j] Suc.prems show ?thesis by simp
    next
      case False
      with Suc.prems have "i < j" "j < n" by simp_all
      from Suc.IH [OF this] assms [of j] Suc.prems(2) show ?thesis by simp
    qed
  qed
  show ?thesis
    by (simp add: sorted_wrt_iff_nth_less mono)
qed

lemma run_sorted:
  assumes "\<forall>i<n. calendar_day ((day_after ^^ i) t)"
  shows "sorted_wrt (<) (map iso_date (run_of_days t n))"
proof -
  have "sorted_wrt (<) (map (\<lambda>i. iso_date ((day_after ^^ i) t)) [0..<n])"
  proof (rule strict_chain_sorted)
    fix i assume i: "Suc i < n"
    with assms have "calendar_day ((day_after ^^ i) t)" "calendar_day (day_after ((day_after ^^ i) t))"
      using assms [rule_format, of i] assms [rule_format, of "Suc i"] by simp_all
    from iso_date_less_after [OF this]
    show "iso_date ((day_after ^^ i) t) < iso_date ((day_after ^^ Suc i) t)" by simp
  qed
  then show ?thesis by (simp add: run_of_days_def comp_def)
qed

lemma sorted_wrt_less_sorted_distinct:
  fixes xs :: "'a::linorder list"
  shows "sorted_wrt (<) xs \<Longrightarrow> sorted xs \<and> distinct xs"
  by (simp add: strict_sorted_iff)

lemma set_run:
  "set (map iso_date (run_of_days t n)) = (\<lambda>i. iso_date ((day_after ^^ i) t)) ` {..<n}"
  by (simp add: run_of_days_def image_image atLeast0LessThan)

lemma run_example:
  "map iso_date (run_of_days (2025, 4, 3) (Suc (Suc 0))) = [''2025-04-03'', ''2025-04-04'']"
  "map iso_date (run_of_days (2025, 4, 3) (Suc (Suc 0) + 1)) = [''2025-04-03'', ''2025-04-04'', ''2025-04-05'']"
  "calendar_day ((day_after ^^ 0) (2025, 4, 3))"
  "calendar_day ((day_after ^^ Suc 0) (2025, 4, 3))"
  "calendar_day ((day_after ^^ Suc (Suc 0)) (2025, 4, 3))"
  by (simp_all add: run_of_days_def days_in_month_def zero_pad_numeral digit_char_def)


section \<open>The workaround on sets of calendar days\<close>

declare iso_date.simps [simp del] day_after.simps [simp del]

lemma workaround_empty: "workaround [] = Inr []"
  by (simp add: workaround_def)

lemma workaround_calendar_set:
  assumes "\<forall>t\<in>D. calendar_day t \<and> calendar_day (day_after t)" "set raw = iso_date ` D"
  shows "\<exists>out. workaround raw = Inr out \<and> set out = iso_date ` (D \<union> day_after ` D)"
proof -
  have step: "addOneDay (iso_date t) = Inr (iso_date (day_after t))" if "t \<in> D" for t
    using addOneDay_iso assms(1) that by blast
  then have "\<forall>s\<in>set raw. \<exists>n. addOneDay s = Inr n"
    using assms(2) by auto
  from workaround_total [OF this] obtain out where out: "workaround raw = Inr out" by blast
  have "{n. \<exists>s\<in>set raw. addOneDay s = Inr n} = iso_date ` day_after ` D"
    using assms(2) step by (auto simp: image_iff)
  with workaround_set [OF out] assms(2) have "set out = iso_date ` D \<union> iso_date ` day_after ` D"
    by (simp only:)
  then have "set out = iso_date ` (D \<union> day_after ` D)"
    by (simp only: image_Un)
  with out show ?thesis by blast
qed


lemma canonical_example:
  "workaround [''2025-04-05'', ''2025-04-01''] = Inr [''2025-04-01'', ''2025-04-02'', ''2025-04-05'', ''2025-04-06'']"
  "workaround [''2025-04-01'', ''2025-04-05''] = Inr [''2025-04-01'', ''2025-04-02'', ''2025-04-05'', ''2025-04-06'']"
  by (simp_all add: workaround_def loop_step set_add_def date_eval)


section \<open>The steps of the handlers\<close>

lemma read_body_Inr:
  assumes "read_body b = Inr (villaId, startDate, endDate)"
  shows "truthy (Some villaId)" "date_pattern (to_string startDate)" "date_pattern (to_string endDate)"
  using assms
  by (auto simp: read_body_def split: option.splits json.splits sum.splits if_splits)

lemma read_body_message: "read_body b = Inl e \<Longrightarrow> message e \<noteq> []"
  by (auto simp: read_body_def invalid_parameters_def split: option.splits json.splits sum.splits if_splits)

lemma formatToMewsRequiredTime_ok:
  "date_pattern (to_string d) \<Longrightarrow> formatToMewsRequiredTime d = Inr (to_string d @ ''T22:00:00.000Z'')"
  by (simp add: formatToMewsRequiredTime_def)

lemma handler_valid:
  assumes "http_method req = ''POST''" "configured e" "read_body (body req) = Inr (villaId, startDate, endDate)"
  shows "handler e fetch req =
    (case resolve villaId (fetch (mewsEndpoint e) (mewsPayload e (to_string startDate @ ''T22:00:00.000Z'') (to_string endDate @ ''T22:00:00.000Z''))) of
       (Inl err, events) \<Rightarrow>
         Outcome (Replied (internal_error_response err))
           [(mewsEndpoint e, mewsPayload e (to_string startDate @ ''T22:00:00.000Z'') (to_string endDate @ ''T22:00:00.000Z''))] (events @ [ExecutionError (message err)])
     | (Inr arr, events) \<Rightarrow>
         Outcome (Replied (unavailable_response arr))
           [(mewsEndpoint e, mewsPayload e (to_string startDate @ ''T22:00:00.000Z'') (to_string endDate @ ''T22:00:00.000Z''))] events)"
  using assms read_body_Inr [OF assms(3)]
  by (simp add: handler_def configured_def formatToMewsRequiredTime_ok Let_def split: prod.splits sum.splits)

lemma handler_invalid:
  assumes "http_method req = ''POST''" "configured e" "read_body (body req) = Inl err"
  shows "handler e fetch req = Outcome (Replied (body_error_response err)) [] [BodyError (message err)]"
    "handler_T15 s e fetch req = Outcome (Replied (body_error_response err)) [] [BodyError (message err)]"
    "handler_probing s e fetch req = Outcome (Replied (body_error_response err)) [] [BodyError (message err)]"
  using assms by (simp_all add: handler_def handler_T15_def handler_probing_def configured_def)

section \<open>Reading the upstream report\<close>

lemma mark_unavailable_set:
  "i + length dates \<le> length av \<Longrightarrow> mark_unavailable av dates i acc = Inr out \<Longrightarrow>
     set out = set acc \<union> {take 10 s | s n. (JStr s, JNum n) \<in> set (zip dates (drop i av)) \<and> n \<le> 0}"
proof (induction dates arbitrary: i acc)
  case Nil
  then show ?case by simp
next
  case (Cons d rest)
  from Cons.prems(2) obtain s where d: "d = JStr s"
    by (cases d) (auto simp: Let_def)
  from Cons.prems(1) have i: "i < length av" by simp
  let ?acc = "(case nth_opt av i of
               Some (JNum n) \<Rightarrow> if n \<le> 0 then set_add (take 10 s) acc else acc
             | _ \<Rightarrow> acc)"
  have run: "mark_unavailable av rest (i + 1) ?acc = Inr out"
    using Cons.prems(2) d by (simp add: Let_def)
  have "Suc i + length rest \<le> length av" using Cons.prems(1) by simp
  from Cons.IH [OF _ run] this
  have out: "set out = set ?acc \<union> {take 10 s | s n. (JStr s, JNum n) \<in> set (zip rest (drop (Suc i) av)) \<and> n \<le> 0}"
    by simp
  have acc: "set ?acc = set acc \<union> {take 10 s' | s' n. (JStr s', JNum n) \<in> {(d, av ! i)} \<and> n \<le> 0}"
    using i d by (auto simp: nth_opt_def set_set_add split: json.splits)
  have zip: "zip (d # rest) (drop i av) = (d, av ! i) # zip rest (drop (Suc i) av)"
    using i by (simp add: Cons_nth_drop_Suc [symmetric])
  show ?case unfolding zip out acc by auto
qed

lemma mark_unavailable_total:
  "\<forall>d\<in>set dates. \<exists>s. d = JStr s \<Longrightarrow> \<exists>out. mark_unavailable av dates i acc = Inr out"
  by (induction dates arbitrary: i acc) (auto simp: Let_def)

lemma mark_example:
  "process_response (JStr ''cat-1'')
     (JObj [(''TimeUnitStartsUtc'',
               JArr [JStr ''2025-04-01T22:00:00Z'', JStr ''2025-04-02T22:00:00Z'',
                     JStr ''2025-04-03T22:00:00Z'', JStr ''2025-04-04T22:00:00Z'']),
            (''CategoryAvailabilities'',
               JArr [JObj [(''CategoryId'', JStr ''cat-1''),
                           (''Availabilities'', JArr [JNum 1, JNull, JNum 0, JStr ''0''])]])])
   = Inr ([''2025-04-03''], [])"
  by (simp add: process_response_def Let_def nth_opt_def set_add_def)


section \<open>Anomalies of the upstream report\<close>





lemmas request_eval = read_body_def date_pattern_def is_digit_def invalid_parameters_def
  configured_def env_missing_def

section \<open>Boundaries and validation\<close>

lemma time_pattern_T15: "time_pattern ''T15:00:00.000Z''"
  by (simp add: time_pattern_def is_digit_def)

lemma T15_fields:
  "digits_val (take 2 (drop 1 ''T15:00:00.000Z'')) = 15"
  "digits_val (take 2 (drop 4 ''T15:00:00.000Z'')) = 0"
  "digits_val (take 2 (drop 7 ''T15:00:00.000Z'')) = 0"
  "digits_val (take 3 (drop 10 ''T15:00:00.000Z'')) = 0"
  "length ''T15:00:00.000Z'' = 14"
  by (simp_all add: digits_val_def digit_val_def)

lemma Date_parse_iso_T15:
  assumes "calendar_day (y, m, d)"
  shows "Date_parse (iso_date (y, m, d) @ ''T15:00:00.000Z'') = Some (Date y m d 54000000)"
proof -
  from assms have y: "y < 10 ^ 4" and m: "m < 10 ^ 2" and d: "d < 10 ^ 2"
    using days_in_month_bounds(2) [of y m] by auto
  have d31: "d \<le> 31" using assms days_in_month_bounds(2) [of y m] by auto
  have md: "make_day y m d = (y, m, d)" using assms by (simp add: make_day.simps)
  show ?thesis
    unfolding Date_parse_def Let_def take_iso drop_iso iso_fields T15_fields
      digits_val_zero_pad [OF y] digits_val_zero_pad [OF m] digits_val_zero_pad [OF d] md
    using assms d31 date_pattern_iso [of "(y, m, d)"] by (simp add: time_pattern_T15)
qed

lemma toISOString_T15:
  "y \<le> 9999 \<Longrightarrow> toISOString (Date y m d 54000000) = iso_date (y, m, d) @ ''T15:00:00.000Z''"
  by (simp add: toISOString_def iso_date.simps zero_pad_numeral digit_char_def)

lemma formatToMewsUtc_calendar_day:
  assumes "calendar_day t"
  shows "formatToMewsUtc (JStr (iso_date t)) = (iso_date t @ ''T15:00:00.000Z'', [])"
proof -
  obtain y m d where t: "t = (y, m, d)" by (cases t)
  from assms t have y: "y \<le> 9999" by simp
  have "Date_parse (iso_date (y, m, d) @ ''T'' @ ''15:00:00'' @ ''.000Z'') = Some (Date y m d 54000000)"
    using Date_parse_iso_T15 [OF assms [unfolded t]] by simp
  then show ?thesis
    unfolding t formatToMewsUtc_def Let_def to_string.simps
    by (simp add: toISOString_T15 [OF y] del: iso_date.simps)
qed

lemma formatToMewsUtc_invalid_example:
  "formatToMewsUtc (JStr ''2025-13-40'')
     = (''2025-13-40T00:00:00.000Z'', [FormatError ''Invalid combined date-time: 2025-13-40T15:00:00.000Z''])"
  by (simp add: formatToMewsUtc_def date_eval)

lemma formatToMewsUtc_valid_example:
  "formatToMewsUtc (JStr ''2025-04-05'') = (''2025-04-05T15:00:00.000Z'', [])"
  by (simp add: formatToMewsUtc_def date_eval)

lemma handler_T15_valid:
  assumes "http_method req = ''POST''" "configured e" "read_body (body req) = Inr (villaId, startDate, endDate)"
  shows "handler_T15 s e fetch req =
    (let payload = mewsPayload e (fst (formatToMewsUtc startDate)) (fst (formatToMewsUtc endDate));
         before = snd (formatToMewsUtc startDate) @ snd (formatToMewsUtc endDate)
     in case resolve_T15 s villaId (fetch (mewsEndpoint e) payload) of
       (Inl err, events) \<Rightarrow>
         Outcome (Replied generic_error_response) [(mewsEndpoint e, payload)]
           (before @ events @ [ExecutionError (message err)])
     | (Inr arr, events) \<Rightarrow>
         Outcome (Replied (unavailable_response arr)) [(mewsEndpoint e, payload)] (before @ events))"
  using assms
  by (simp add: handler_T15_def configured_def Let_def split: prod.splits sum.splits)

lemma calls_handler:
  assumes "http_method req = ''POST''" "configured e" "read_body (body req) = Inr (villaId, startDate, endDate)"
  shows "calls (handler e fetch req) =
    [(mewsEndpoint e,
      mewsPayload e (to_string startDate @ ''T22:00:00.000Z'') (to_string endDate @ ''T22:00:00.000Z''))]"
  by (simp add: handler_valid [OF assms] split: prod.splits sum.splits)

lemma calls_handler_T15:
  assumes "http_method req = ''POST''" "configured e" "read_body (body req) = Inr (villaId, startDate, endDate)"
  shows "calls (handler_T15 s e fetch req) =
    [(mewsEndpoint e, mewsPayload e (fst (formatToMewsUtc startDate)) (fst (formatToMewsUtc endDate)))]"
  by (simp add: handler_T15_valid [OF assms] Let_def split: prod.splits sum.splits)

lemma read_body_rejects:
  assumes "\<not> truthy (body_field req ''villaId'')
     \<or> \<not> date_pattern (to_string_opt (body_field req ''startDate''))
     \<or> \<not> date_pattern (to_string_opt (body_field req ''endDate''))"
  shows "\<exists>err. read_body (body req) = Inl err"
  using assms
  by (auto simp: read_body_def body_field_def to_string_opt_def
      split: option.splits json.splits sum.splits)

lemma date_pattern_nonempty: "date_pattern s \<Longrightarrow> s \<noteq> []"
  by (auto simp: date_pattern_def)

lemma read_body_accepts:
  assumes "truthy (body_field req ''villaId'')"
    and "body_field req ''startDate'' = Some (JStr sd)" "body_field req ''endDate'' = Some (JStr ed)"
    and "date_pattern sd" "date_pattern ed"
  shows "\<exists>v. read_body (body req) = Inr (v, JStr sd, JStr ed)"
proof -
  from assms(2) obtain fs where fs: "body req = Some (JObj fs)"
    by (auto simp: body_field_def split: option.splits json.splits)
  from assms(1) fs obtain v where v: "map_of fs ''villaId'' = Some v" "truthy (Some v)"
    by (cases "map_of fs ''villaId''") (auto simp: body_field_def)
  from assms fs v date_pattern_nonempty [OF assms(4)] date_pattern_nonempty [OF assms(5)]
  have "read_body (body req) = Inr (v, JStr sd, JStr ed)"
    by (simp add: read_body_def body_field_def)
  then show ?thesis by blast
qed

section \<open>The order of dates\<close>








section \<open>The array sent back\<close>











section \<open>The claims\<close>

text \<open>
  C1, as the code has it.  The transform leaves the empty set empty, and on any other
  set of calendar days it is not idempotent: a second pass over the output of the first
  finds the day after the latest date absent and adds it.  (The two days after each
  raw date are taken to be calendar days, not past 9999-12-31.)
\<close>

theorem workaround_twice_grows:
  "workaround [] = Inr [] \<and>
   (days \<noteq> [] \<and>
    (\<forall>t\<in>set days. calendar_day t \<and> calendar_day (day_after t)
        \<and> calendar_day (day_after (day_after t))) \<longrightarrow>
    (\<exists>once twice. workaround (map iso_date days) = Inr once \<and> workaround once = Inr twice
        \<and> set once \<subset> set twice))"
proof (intro conjI impI)
  show "workaround [] = Inr []" by (rule workaround_empty)
next
  assume a: "days \<noteq> [] \<and>
    (\<forall>t\<in>set days. calendar_day t \<and> calendar_day (day_after t)
        \<and> calendar_day (day_after (day_after t)))"
  let ?D = "set days"
  let ?D1 = "?D \<union> day_after ` ?D"
  have D: "\<forall>t\<in>?D. calendar_day t \<and> calendar_day (day_after t)" using a by blast
  have D1: "\<forall>t\<in>?D1. calendar_day t \<and> calendar_day (day_after t)" using a by blast
  from workaround_calendar_set [OF D, of "map iso_date days"]
  obtain once where once: "workaround (map iso_date days) = Inr once" "set once = iso_date ` ?D1"
    by auto
  from workaround_calendar_set [OF D1 once(2)]
  obtain twice where twice: "workaround once = Inr twice"
    "set twice = iso_date ` (?D1 \<union> day_after ` ?D1)"
    by blast
  have sub: "set once \<subseteq> set twice" using once(2) twice(2) by blast
  have "set once \<noteq> {}" using a once(2) by auto
  then have "Max (set once) \<in> set once" by simp
  then have "Max (set once) \<in> iso_date ` ?D1" by (rule subst [OF once(2)])
  then obtain t where t: "t \<in> ?D1" "Max (set once) = iso_date t" by (rule imageE)
  from D1 t(1) have "iso_date t < iso_date (day_after t)"
    using iso_date_less_after by blast
  then have "iso_date (day_after t) \<notin> set once"
    using t(2) Max_ge [of "set once" "iso_date (day_after t)"] by auto
  moreover have "iso_date (day_after t) \<in> set twice" using t(1) twice(2) by blast
  ultimately have "set once \<subset> set twice" using sub by blast
  with once(1) twice(1)
  show "\<exists>once twice. workaround (map iso_date days) = Inr once \<and> workaround once = Inr twice
        \<and> set once \<subset> set twice" by blast
qed

theorem workaround_twice_grows_witness:
  "[(2025, 4, 1)] \<noteq> []
   \<and> calendar_day (2025, 4, 1) \<and> calendar_day (day_after (2025, 4, 1))
   \<and> calendar_day (day_after (day_after (2025, 4, 1)))
   \<and> (\<exists>once twice. workaround (map iso_date [(2025, 4, 1)]) = Inr once \<and> workaround once = Inr twice
        \<and> set once \<subset> set twice)"
proof -
  have d: "calendar_day (2025, 4, 1)" "calendar_day (day_after (2025, 4, 1))"
    "calendar_day (day_after (day_after (2025, 4, 1)))"
    by (simp_all add: days_in_month_def day_after.simps)
  then have "\<forall>t\<in>set [(2025, 4, 1)]. calendar_day t \<and> calendar_day (day_after t)
        \<and> calendar_day (day_after (day_after t))" by simp
  with workaround_twice_grows [of "[(2025, 4, 1)]"] d show ?thesis by blast
qed

text \<open>
  The claim of idempotence fails on a single day: the second pass adds 2025-04-03.
\<close>

theorem workaround_not_idempotent:
  "workaround [''2025-04-01''] = Inr [''2025-04-01'', ''2025-04-02'']
   \<and> workaround [''2025-04-01'', ''2025-04-02''] = Inr [''2025-04-01'', ''2025-04-02'', ''2025-04-03'']
   \<and> [''2025-04-01'', ''2025-04-02'', ''2025-04-03''] \<noteq> [''2025-04-01'', ''2025-04-02'']"
  by (simp add: workaround_def loop_step set_add_def date_eval)
text \<open>
  C2, as the code has it.  In the handler with the workaround the two boundaries are
  the start date and the end date, each followed by the one time of day
  \<^verbatim>\<open>T22:00:00.000Z\<close>, and exactly one upstream call is made, whatever the upstream
  service answers; in \<^verbatim>\<open>src/api/mews-availability.js\<close> the same holds for calendar
  dates with \<^verbatim>\<open>T15:00:00.000Z\<close>.  The time of day is a constant of the code: it is
  the same under every configuration.
\<close>

theorem boundaries_fixed_time_one_call:
  assumes "http_method req = ''POST''" and "configured e"
    and "read_body (body req) = Inr (villaId, startDate, endDate)"
  shows
    "calls (handler e fetch req)
       = [(mewsEndpoint e,
           mewsPayload e (to_string startDate @ ''T22:00:00.000Z'') (to_string endDate @ ''T22:00:00.000Z''))]
     \<and> (calendar_day t1 \<and> calendar_day t2 \<and> startDate = JStr (iso_date t1) \<and> endDate = JStr (iso_date t2)
        \<longrightarrow> calls (handler_T15 s e fetch req)
            = [(mewsEndpoint e,
                mewsPayload e (iso_date t1 @ ''T15:00:00.000Z'') (iso_date t2 @ ''T15:00:00.000Z''))])"
  by (simp add: calls_handler [OF assms] calls_handler_T15 [OF assms] formatToMewsUtc_calendar_day)

theorem boundaries_fixed_time_one_call_witness:
  "http_method (Request ''POST'' (Some (JObj [(''villaId'', JStr ''cat-1''),
       (''startDate'', JStr ''2025-04-01''), (''endDate'', JStr ''2025-04-05'')]))) = ''POST''
   \<and> configured (Env (Some ''ct'') (Some ''at'') (Some ''https://api.mews-demo.com'') (Some ''svc''))
   \<and> read_body (body (Request ''POST'' (Some (JObj [(''villaId'', JStr ''cat-1''),
       (''startDate'', JStr ''2025-04-01''), (''endDate'', JStr ''2025-04-05'')]))))
     = Inr (JStr ''cat-1'', JStr ''2025-04-01'', JStr ''2025-04-05'')
   \<and> calendar_day (2025, 4, 1) \<and> calendar_day (2025, 4, 5)
   \<and> JStr ''2025-04-01'' = JStr (iso_date (2025, 4, 1)) \<and> JStr ''2025-04-05'' = JStr (iso_date (2025, 4, 5))
   \<and> calls (handler (Env (Some ''ct'') (Some ''at'') (Some ''https://api.mews-demo.com'') (Some ''svc''))
        (\<lambda>ep p. Rejected (TypeError ''fetch failed''))
        (Request ''POST'' (Some (JObj [(''villaId'', JStr ''cat-1''),
           (''startDate'', JStr ''2025-04-01''), (''endDate'', JStr ''2025-04-05'')]))))
     = [(''https://api.mews-demo.com/api/connector/v1/services/getAvailability'',
         Payload ''ct'' ''at'' ''Kosmos_Availability_Check_1.0'' ''svc''
           ''2025-04-01T22:00:00.000Z'' ''2025-04-05T22:00:00.000Z'')]
   \<and> calls (handler_T15 (\<lambda>s. False)
        (Env (Some ''ct'') (Some ''at'') (Some ''https://api.mews-demo.com'') (Some ''svc''))
        (\<lambda>ep p. Rejected (TypeError ''fetch failed''))
        (Request ''POST'' (Some (JObj [(''villaId'', JStr ''cat-1''),
           (''startDate'', JStr ''2025-04-01''), (''endDate'', JStr ''2025-04-05'')]))))
     = [(''https://api.mews-demo.com/api/connector/v1/services/getAvailability'',
         Payload ''ct'' ''at'' ''Kosmos_Availability_Check_1.0'' ''svc''
           ''2025-04-01T15:00:00.000Z'' ''2025-04-05T15:00:00.000Z'')]"
proof -
  let ?e = "Env (Some ''ct'') (Some ''at'') (Some ''https://api.mews-demo.com'') (Some ''svc'')"
  let ?f = "\<lambda>ep p. Rejected (TypeError ''fetch failed'') :: fetch_result"
  let ?req = "Request ''POST'' (Some (JObj [(''villaId'', JStr ''cat-1''),
       (''startDate'', JStr ''2025-04-01''), (''endDate'', JStr ''2025-04-05'')]))"
  have 1: "http_method ?req = ''POST''" by simp
  have 2: "configured ?e" by (simp add: request_eval)
  have 3: "read_body (body ?req) = Inr (JStr ''cat-1'', JStr ''2025-04-01'', JStr ''2025-04-05'')"
    by (simp add: request_eval)
  have 4: "calendar_day (2025, 4, 1)" "calendar_day (2025, 4, 5)"
    by (simp_all add: days_in_month_def)
  have 5: "iso_date (2025, 4, 1) = ''2025-04-01''" "iso_date (2025, 4, 5) = ''2025-04-05''"
    by (simp_all add: iso_date.simps zero_pad_numeral digit_char_def)
  from boundaries_fixed_time_one_call [OF 1 2 3, where fetch = ?f and s = "\<lambda>s. False"
      and ?t1.0 = "(2025, 4, 1)" and ?t2.0 = "(2025, 4, 5)"] 4 5
  have "calls (handler ?e ?f ?req)
       = [(mewsEndpoint ?e, mewsPayload ?e (''2025-04-01'' @ ''T22:00:00.000Z'') (''2025-04-05'' @ ''T22:00:00.000Z''))]"
    and "calls (handler_T15 (\<lambda>s. False) ?e ?f ?req)
       = [(mewsEndpoint ?e, mewsPayload ?e (''2025-04-01'' @ ''T15:00:00.000Z'') (''2025-04-05'' @ ''T15:00:00.000Z''))]"
    by simp_all
  with 1 2 3 4 5 show ?thesis
    by (simp add: mewsEndpoint_def mewsPayload_def)
qed

text \<open>
  The claim fails on the handler that probes the hours: with an upstream service that
  accepts 02:00 only, it calls the service three times, with 00:00, 01:00 and 02:00.
\<close>

theorem probing_handler_searches_hours:
  "map (\<lambda>c. FirstTimeUnitStartUtc (snd c))
     (calls (handler_probing (\<lambda>s. False)
        (Env (Some ''ct'') (Some ''at'') (Some ''https://api.mews-demo.com'') (Some ''svc''))
        (\<lambda>ep p. if FirstTimeUnitStartUtc p = ''2025-04-01T02:00:00.000Z''
                  then Resolved (UpstreamResponse 200 [] (Inr (JObj [])))
                  else Resolved (UpstreamResponse 400 ''FirstTimeUnitStartUtc is not start of TimeUnit.''
                         (Inl (SyntaxError ''Unexpected token F in JSON at position 0''))))
        (Request ''POST'' (Some (JObj [(''villaId'', JStr ''cat-1''),
           (''startDate'', JStr ''2025-04-01''), (''endDate'', JStr ''2025-04-05'')])))))
   = [''2025-04-01T00:00:00.000Z'', ''2025-04-01T01:00:00.000Z'', ''2025-04-01T02:00:00.000Z'']"
proof -
  have hours: "[0..<24] = 0 # 1 # 2 # [3..<24]"
  proof -
    have "[0..<24] = 0 # [Suc 0..<24]" by (rule upt_conv_Cons) simp
    also have "[Suc 0..<24] = Suc 0 # [Suc (Suc 0)..<24]" by (rule upt_conv_Cons) simp
    also have "[Suc (Suc 0)..<24] = Suc (Suc 0) # [Suc (Suc (Suc 0))..<24]" by (rule upt_conv_Cons) simp
    finally show ?thesis by (simp only: numeral_2_eq_2 numeral_3_eq_3 One_nat_def)
  qed
  have 3: "read_body (Some (JObj [(''villaId'', JStr ''cat-1''),
           (''startDate'', JStr ''2025-04-01''), (''endDate'', JStr ''2025-04-05'')]))
     = Inr (JStr ''cat-1'', JStr ''2025-04-01'', JStr ''2025-04-05'')"
    by (simp add: request_eval)
  have 4: "formatTimeWithHour (JStr ''2025-04-01'') 0 = ''2025-04-01T00:00:00.000Z''"
    "formatTimeWithHour (JStr ''2025-04-01'') (Suc 0) = ''2025-04-01T01:00:00.000Z''"
    "formatTimeWithHour (JStr ''2025-04-01'') 2 = ''2025-04-01T02:00:00.000Z''"
    by (simp_all add: formatTimeWithHour_def padStart_def show_nat.simps digit_char_def)
  show ?thesis
    unfolding handler_probing_def hours
    by (simp add: 3 4 env_missing_def ok_def processAvailabilityData_def mewsPayload_def Let_def)
qed

text \<open>
  C3.  A raw set that is one run of \<open>k\<close> consecutive calendar days from \<open>t\<close> on, in any
  order of insertion, comes back as the \<open>k + 1\<close> consecutive days from \<open>t\<close> on.  The
  days of the result are calendar days: the day after the run is not past 9999-12-31.
\<close>

theorem workaround_single_run:
  assumes k: "1 \<le> k"
    and days: "\<forall>i\<le>k. calendar_day ((day_after ^^ i) t)"
    and raw: "distinct raw" "set raw = set (map iso_date (run_of_days t k))"
  shows "workaround raw = Inr (map iso_date (run_of_days t (k + 1)))"
proof -
  let ?f = "\<lambda>i. iso_date ((day_after ^^ i) t)"
  have raw_set: "set raw = ?f ` {..<k}"
    using raw(2) by (simp only: set_run)
  have next_day: "addOneDay (?f i) = Inr (?f (Suc i))" if "i < k" for i
  proof -
    from days that have "calendar_day ((day_after ^^ i) t)" "calendar_day (day_after ((day_after ^^ i) t))"
      using days [rule_format, of i] days [rule_format, of "Suc i"] by simp_all
    from addOneDay_iso [OF this] show ?thesis by simp
  qed
  have "\<forall>s\<in>set raw. \<exists>n. addOneDay s = Inr n"
    using raw_set next_day by auto
  from workaround_total [OF this] obtain out where out: "workaround raw = Inr out" by blast
  have succ: "{n. \<exists>s\<in>set raw. addOneDay s = Inr n} = ?f ` Suc ` {..<k}"
    using raw_set next_day by (auto simp: image_iff)
  have "set out = set raw \<union> ?f ` Suc ` {..<k}"
    using workaround_set [OF out] by (simp only: succ)
  then have "set out = ?f ` {..<k} \<union> ?f ` Suc ` {..<k}"
    by (simp only: raw_set)
  then have img: "set out = ?f ` ({..<k} \<union> Suc ` {..<k})"
    by (simp only: image_Un)
  have un: "{..<k} \<union> Suc ` {..<k} = {..<k + 1}"
  proof (rule set_eqI)
    fix x show "x \<in> {..<k} \<union> Suc ` {..<k} \<longleftrightarrow> x \<in> {..<k + 1}"
      using k by (cases x) auto
  qed
  have set_out: "set out = set (map iso_date (run_of_days t (k + 1)))"
    using img by (simp only: un set_run)
  have "sorted_wrt (<) (map iso_date (run_of_days t (k + 1)))"
  proof (rule run_sorted, intro allI impI)
    fix i assume "i < k + 1"
    then have "i \<le> k" by simp
    with days show "calendar_day ((day_after ^^ i) t)" by blast
  qed
  then have "sorted (map iso_date (run_of_days t (k + 1)))" "distinct (map iso_date (run_of_days t (k + 1)))"
    using sorted_wrt_less_sorted_distinct by blast+
  moreover from workaround_sorted_distinct [OF raw(1) out] have "sorted out" "distinct out" by simp_all
  ultimately have "out = map iso_date (run_of_days t (k + 1))"
    using set_out by (intro sorted_distinct_set_unique) simp_all
  with out show ?thesis by simp
qed

theorem workaround_single_run_witness:
  "1 \<le> Suc (Suc 0)
   \<and> calendar_day ((day_after ^^ 0) (2025, 4, 3))
   \<and> calendar_day ((day_after ^^ Suc 0) (2025, 4, 3))
   \<and> calendar_day ((day_after ^^ Suc (Suc 0)) (2025, 4, 3))
   \<and> distinct [''2025-04-04'', ''2025-04-03'']
   \<and> set [''2025-04-04'', ''2025-04-03''] = set (map iso_date (run_of_days (2025, 4, 3) (Suc (Suc 0))))
   \<and> workaround [''2025-04-04'', ''2025-04-03''] = Inr [''2025-04-03'', ''2025-04-04'', ''2025-04-05'']"
proof -
  have days: "\<forall>i\<le>Suc (Suc 0). calendar_day ((day_after ^^ i) (2025, 4, 3))"
  proof (intro allI impI)
    fix i :: nat assume "i \<le> Suc (Suc 0)"
    then have "i = 0 \<or> i = Suc 0 \<or> i = Suc (Suc 0)" by arith
    with run_example(3-5) show "calendar_day ((day_after ^^ i) (2025, 4, 3))" by blast
  qed
  have raw: "distinct [''2025-04-04'', ''2025-04-03'']"
    "set [''2025-04-04'', ''2025-04-03''] = set (map iso_date (run_of_days (2025, 4, 3) (Suc (Suc 0))))"
    unfolding run_example(1) by (simp_all add: insert_commute)
  have k: "1 \<le> Suc (Suc 0)" by simp
  from workaround_single_run [OF k days raw] have
    "workaround [''2025-04-04'', ''2025-04-03''] = Inr [''2025-04-03'', ''2025-04-04'', ''2025-04-05'']"
    unfolding run_example(2) .
  with k run_example(3-5) raw show ?thesis by blast
qed




text \<open>
  C5, as the code has it.  For a \<^verbatim>\<open>POST\<close> request under a complete configuration:
  a request whose \<^verbatim>\<open>villaId\<close> is missing or falsy, or one of whose dates does not match
  the pattern (as \<^verbatim>\<open>25-04-01\<close> does not), is answered 400 with the message of the
  validation and no upstream call is made.  A date that matches the pattern without
  being a calendar date (as \<^verbatim>\<open>2025-13-40\<close> does) is not rejected: the upstream call is
  made with it, at midnight in \<^verbatim>\<open>src/api/mews-availability.js\<close> and at 22:00 in the
  handler with the workaround.
\<close>

theorem validation_before_upstream_call:
  assumes "http_method req = ''POST''" and "configured e"
  shows
    "(\<not> truthy (body_field req ''villaId'')
        \<or> \<not> date_pattern (to_string_opt (body_field req ''startDate''))
        \<or> \<not> date_pattern (to_string_opt (body_field req ''endDate''))
      \<longrightarrow> (\<exists>msg. msg \<noteq> []
            \<and> handler_T15 s e fetch req = Outcome (Replied (error_response 400 msg)) [] [BodyError msg]
            \<and> handler e fetch req = Outcome (Replied (error_response 400 msg)) [] [BodyError msg]))
     \<and> \<not> date_pattern ''25-04-01''
     \<and> date_pattern ''2025-13-40''
     \<and> (truthy (body_field req ''villaId'')
          \<and> body_field req ''startDate'' = Some (JStr ''2025-13-40'')
          \<and> body_field req ''endDate'' = Some (JStr ed) \<and> date_pattern ed
      \<longrightarrow> calls (handler_T15 s e fetch req)
            = [(mewsEndpoint e,
                mewsPayload e ''2025-13-40T00:00:00.000Z'' (fst (formatToMewsUtc (JStr ed))))]
          \<and> calls (handler e fetch req)
            = [(mewsEndpoint e,
                mewsPayload e ''2025-13-40T22:00:00.000Z'' (ed @ ''T22:00:00.000Z''))])"
proof (intro conjI impI)
  assume "\<not> truthy (body_field req ''villaId'')
        \<or> \<not> date_pattern (to_string_opt (body_field req ''startDate''))
        \<or> \<not> date_pattern (to_string_opt (body_field req ''endDate''))"
  from read_body_rejects [OF this] obtain err where err: "read_body (body req) = Inl err" by blast
  from read_body_message [OF err] handler_invalid [OF assms err]
  show "\<exists>msg. msg \<noteq> []
            \<and> handler_T15 s e fetch req = Outcome (Replied (error_response 400 msg)) [] [BodyError msg]
            \<and> handler e fetch req = Outcome (Replied (error_response 400 msg)) [] [BodyError msg]"
    by (auto simp: body_error_response_def)
next
  show "\<not> date_pattern ''25-04-01''" by (simp add: date_pattern_def)
next
  show p: "date_pattern ''2025-13-40''" by (simp add: date_pattern_def is_digit_def)
next
  assume a: "truthy (body_field req ''villaId'')
          \<and> body_field req ''startDate'' = Some (JStr ''2025-13-40'')
          \<and> body_field req ''endDate'' = Some (JStr ed) \<and> date_pattern ed"
  have p: "date_pattern ''2025-13-40''" by (simp add: date_pattern_def is_digit_def)
  from a read_body_accepts [of req "''2025-13-40''" ed] p
  obtain v where v: "read_body (body req) = Inr (v, JStr ''2025-13-40'', JStr ed)" by blast
  show "calls (handler_T15 s e fetch req)
            = [(mewsEndpoint e,
                mewsPayload e ''2025-13-40T00:00:00.000Z'' (fst (formatToMewsUtc (JStr ed))))]"
    by (simp add: calls_handler_T15 [OF assms v] formatToMewsUtc_invalid_example)
  show "calls (handler e fetch req)
            = [(mewsEndpoint e,
                mewsPayload e ''2025-13-40T22:00:00.000Z'' (ed @ ''T22:00:00.000Z''))]"
    by (simp add: calls_handler [OF assms v])
qed

theorem validation_before_upstream_call_witness:
  "http_method (Request ''POST'' (Some (JObj [(''startDate'', JStr ''2025-04-01''), (''endDate'', JStr ''2025-04-05'')])))
     = ''POST''
   \<and> configured (Env (Some ''ct'') (Some ''at'') (Some ''https://api.mews-demo.com'') (Some ''svc''))
   \<and> \<not> truthy (body_field
         (Request ''POST'' (Some (JObj [(''startDate'', JStr ''2025-04-01''), (''endDate'', JStr ''2025-04-05'')])))
         ''villaId'')
   \<and> (\<exists>msg. msg \<noteq> []
        \<and> handler (Env (Some ''ct'') (Some ''at'') (Some ''https://api.mews-demo.com'') (Some ''svc''))
            (\<lambda>ep p. Rejected (TypeError ''fetch failed''))
            (Request ''POST'' (Some (JObj [(''startDate'', JStr ''2025-04-01''), (''endDate'', JStr ''2025-04-05'')])))
          = Outcome (Replied (error_response 400 msg)) [] [BodyError msg])
   \<and> truthy (body_field
         (Request ''POST'' (Some (JObj [(''villaId'', JStr ''cat-1''), (''startDate'', JStr ''2025-13-40''),
            (''endDate'', JStr ''2025-04-05'')])))
         ''villaId'')
   \<and> date_pattern ''2025-04-05''
   \<and> calls (handler (Env (Some ''ct'') (Some ''at'') (Some ''https://api.mews-demo.com'') (Some ''svc''))
            (\<lambda>ep p. Rejected (TypeError ''fetch failed''))
            (Request ''POST'' (Some (JObj [(''villaId'', JStr ''cat-1''), (''startDate'', JStr ''2025-13-40''),
               (''endDate'', JStr ''2025-04-05'')]))))
       = [(''https://api.mews-demo.com/api/connector/v1/services/getAvailability'',
           Payload ''ct'' ''at'' ''Kosmos_Availability_Check_1.0'' ''svc''
             ''2025-13-40T22:00:00.000Z'' ''2025-04-05T22:00:00.000Z'')]"
proof -
  let ?e = "Env (Some ''ct'') (Some ''at'') (Some ''https://api.mews-demo.com'') (Some ''svc'')"
  let ?f = "\<lambda>ep p. Rejected (TypeError ''fetch failed'') :: fetch_result"
  let ?r1 = "Request ''POST'' (Some (JObj [(''startDate'', JStr ''2025-04-01''), (''endDate'', JStr ''2025-04-05'')]))"
  let ?r2 = "Request ''POST'' (Some (JObj [(''villaId'', JStr ''cat-1''), (''startDate'', JStr ''2025-13-40''),
            (''endDate'', JStr ''2025-04-05'')]))"
  have c: "configured ?e" by (simp add: request_eval)
  have m1: "http_method ?r1 = ''POST''" and m2: "http_method ?r2 = ''POST''" by simp_all
  have h1: "\<not> truthy (body_field ?r1 ''villaId'')" by (simp add: body_field_def)
  have h2: "truthy (body_field ?r2 ''villaId'')"
    "body_field ?r2 ''startDate'' = Some (JStr ''2025-13-40'')"
    "body_field ?r2 ''endDate'' = Some (JStr ''2025-04-05'')"
    "date_pattern ''2025-04-05''"
    by (simp_all add: body_field_def date_pattern_def is_digit_def)
  from validation_before_upstream_call [OF m1 c, where s = "\<lambda>s. False" and fetch = ?f] h1
  have a: "\<exists>msg. msg \<noteq> [] \<and> handler ?e ?f ?r1 = Outcome (Replied (error_response 400 msg)) [] [BodyError msg]"
    by blast
  from validation_before_upstream_call [OF m2 c, where ed = "''2025-04-05''" and s = "\<lambda>s. False" and fetch = ?f] h2
  have b: "calls (handler ?e ?f ?r2)
      = [(mewsEndpoint ?e, mewsPayload ?e ''2025-13-40T22:00:00.000Z'' (''2025-04-05'' @ ''T22:00:00.000Z''))]"
    by blast
  from a b c m1 h1 h2 show ?thesis
    by (simp add: mewsEndpoint_def mewsPayload_def)
qed

text \<open>
  The claim fails on \<^verbatim>\<open>2025-13-40\<close>: \<^verbatim>\<open>src/api/mews-availability.js\<close> calls the
  upstream service with it and answers 200.
\<close>

theorem pattern_valid_date_reaches_upstream:
  "handler_T15 (\<lambda>s. False) (Env (Some ''ct'') (Some ''at'') (Some ''https://api.mews-demo.com'') (Some ''svc''))
     (\<lambda>ep p. Resolved (UpstreamResponse 200 [] (Inr (JObj []))))
     (Request ''POST'' (Some (JObj [(''villaId'', JStr ''cat-1''), (''startDate'', JStr ''2025-13-40''),
        (''endDate'', JStr ''2025-04-05'')])))
   = Outcome (Replied (unavailable_response []))
       [(''https://api.mews-demo.com/api/connector/v1/services/getAvailability'',
         Payload ''ct'' ''at'' ''Kosmos_Availability_Check_1.0'' ''svc''
           ''2025-13-40T00:00:00.000Z'' ''2025-04-05T15:00:00.000Z'')]
       [FormatError ''Invalid combined date-time: 2025-13-40T15:00:00.000Z'', StructureUnexpected]"
proof -
  let ?e = "Env (Some ''ct'') (Some ''at'') (Some ''https://api.mews-demo.com'') (Some ''svc'')"
  let ?req = "Request ''POST'' (Some (JObj [(''villaId'', JStr ''cat-1''), (''startDate'', JStr ''2025-13-40''),
        (''endDate'', JStr ''2025-04-05'')]))"
  have 1: "http_method ?req = ''POST''" by simp
  have 2: "configured ?e" by (simp add: request_eval)
  have 3: "read_body (body ?req) = Inr (JStr ''cat-1'', JStr ''2025-13-40'', JStr ''2025-04-05'')"
    by (simp add: request_eval)
  show ?thesis
    by (simp add: handler_T15_valid [OF 1 2 3] formatToMewsUtc_invalid_example
        formatToMewsUtc_valid_example resolve_T15_def ok_def processAvailabilityData_def
        mewsEndpoint_def mewsPayload_def Let_def)
qed



text \<open>
  C7, on the handler with the workaround.  The upstream service answers 400 with a body
  that is not JSON; the caller receives that body inside \<^verbatim>\<open>details\<close>.
\<close>

theorem handler_sends_upstream_error_body:
  "reply (handler (Env (Some ''ct'') (Some ''at'') (Some ''https://api.mews-demo.com'') (Some ''svc''))
       (\<lambda>ep p. Resolved (UpstreamResponse 400 ''Invalid AccessToken at, ServiceId svc''
          (Inl (SyntaxError ''Unexpected token I in JSON at position 0''))))
       (Request ''POST'' (Some (JObj [(''villaId'', JStr ''cat-1''),
          (''startDate'', JStr ''2025-04-01''), (''endDate'', JStr ''2025-04-05'')]))))
   = Replied (Response 500 []
       (Json (JObj [(''error'', JStr ''An internal server error occurred.''),
                    (''details'', JStr ''Mews API request failed with status 400. Message: Invalid AccessToken at, ServiceId svc'')])))"
proof -
  let ?e = "Env (Some ''ct'') (Some ''at'') (Some ''https://api.mews-demo.com'') (Some ''svc'')"
  let ?req = "Request ''POST'' (Some (JObj [(''villaId'', JStr ''cat-1''),
       (''startDate'', JStr ''2025-04-01''), (''endDate'', JStr ''2025-04-05'')]))"
  have 1: "http_method ?req = ''POST''" by simp
  have 2: "configured ?e" by (simp add: request_eval)
  have 3: "read_body (body ?req) = Inr (JStr ''cat-1'', JStr ''2025-04-01'', JStr ''2025-04-05'')"
    by (simp add: request_eval)
  have 4: "show_nat 400 = ''400''"
    by (simp add: show_nat.simps digit_char_def)
  show ?thesis
    by (simp add: handler_valid [OF 1 2 3] resolve_def ok_def upstream_failure_message_def 4
        to_string_opt_def internal_error_response_def Let_def)
qed


text \<open>
  C8.  The output of the workaround holds every date of the initial set: the final set
  starts as a copy of the initial one and dates are only added to it.  On a set of
  calendar days the workaround does return.
\<close>

theorem workaround_superset:
  "(workaround raw = Inr out \<longrightarrow> set raw \<subseteq> set out) \<and>
   ((\<forall>t\<in>set days. calendar_day t) \<longrightarrow>
      (\<exists>res. workaround (map iso_date days) = Inr res \<and> set (map iso_date days) \<subseteq> set res))"
proof (intro conjI impI)
  assume "workaround raw = Inr out"
  from workaround_set [OF this] show "set raw \<subseteq> set out" by blast
next
  assume "\<forall>t\<in>set days. calendar_day t"
  then have "\<forall>s\<in>set (map iso_date days). \<exists>n. addOneDay s = Inr n"
    using addOneDay_calendar_day by auto
  from workaround_total [OF this] obtain res where res: "workaround (map iso_date days) = Inr res"
    by blast
  from workaround_set [OF res] have "set (map iso_date days) \<subseteq> set res" by blast
  with res show "\<exists>res. workaround (map iso_date days) = Inr res \<and> set (map iso_date days) \<subseteq> set res"
    by blast
qed

theorem workaround_superset_witness:
  "workaround [''2025-04-03'', ''2025-04-04''] = Inr [''2025-04-03'', ''2025-04-04'', ''2025-04-05'']
   \<and> set [''2025-04-03'', ''2025-04-04''] \<subseteq> set [''2025-04-03'', ''2025-04-04'', ''2025-04-05'']
   \<and> calendar_day (2025, 4, 3) \<and> calendar_day (2025, 4, 4)
   \<and> (\<exists>res. workaround (map iso_date [(2025, 4, 3), (2025, 4, 4)]) = Inr res
         \<and> set (map iso_date [(2025, 4, 3), (2025, 4, 4)]) \<subseteq> set res)"
proof -
  have days: "calendar_day (2025, 4, 3)" "calendar_day (2025, 4, 4)"
    by (simp_all add: days_in_month_def)
  then have "\<forall>t\<in>set [(2025, 4, 3), (2025, 4, 4)]. calendar_day t" by simp
  with workaround_superset [of "[''2025-04-03'', ''2025-04-04'']"
      "[''2025-04-03'', ''2025-04-04'', ''2025-04-05'']" "[(2025, 4, 3), (2025, 4, 4)]"]
    workaround_example days
  show ?thesis by blast
qed

text \<open>
  C9.  Where the category is found and its series is as long as the array of time
  units, a date is in the initial set exactly when some position pairs a time unit of
  that date with a count that is a number and at most zero.  A position whose entry is
  not a number (\<^verbatim>\<open>null\<close>, a string) marks nothing.
\<close>

theorem only_nonpositive_numbers_mark:
  assumes "get_prop mewsData ''TimeUnitStartsUtc'' = Inr (Some (JArr dates))"
    and "get_prop mewsData ''CategoryAvailabilities'' = Inr (Some (JArr cats))"
    and "find_category villaId cats = Inr (Some c)"
    and "get_prop c ''Availabilities'' = Inr (Some (JArr avail))"
    and "length avail = length dates"
    and "\<forall>d\<in>set dates. \<exists>s. d = JStr s"
  shows "\<exists>raw. process_response villaId mewsData = Inr (raw, [])
    \<and> set raw = {take 10 s | s n. (JStr s, JNum n) \<in> set (zip dates avail) \<and> n \<le> 0}"
proof -
  from mark_unavailable_total [OF assms(6)] obtain raw
    where raw: "mark_unavailable avail dates 0 [] = Inr raw" by blast
  from mark_unavailable_set [OF _ raw] assms(5)
  have "set raw = {take 10 s | s n. (JStr s, JNum n) \<in> set (zip dates avail) \<and> n \<le> 0}" by simp
  moreover obtain dus where "get_prop mewsData ''DatesUtc'' = Inr dus"
    using assms(1) by (cases mewsData) auto
  then have "process_response villaId mewsData = Inr (raw, [])"
    using assms(1-5) raw by (simp add: process_response_def Let_def)
  ultimately show ?thesis by blast
qed

theorem only_nonpositive_numbers_mark_witness:
  "get_prop (JObj [(''TimeUnitStartsUtc'',
               JArr [JStr ''2025-04-01T22:00:00Z'', JStr ''2025-04-02T22:00:00Z'',
                     JStr ''2025-04-03T22:00:00Z'', JStr ''2025-04-04T22:00:00Z'']),
            (''CategoryAvailabilities'',
               JArr [JObj [(''CategoryId'', JStr ''cat-1''),
                           (''Availabilities'', JArr [JNum 1, JNull, JNum 0, JStr ''0''])]])])
       ''TimeUnitStartsUtc''
     = Inr (Some (JArr [JStr ''2025-04-01T22:00:00Z'', JStr ''2025-04-02T22:00:00Z'',
                     JStr ''2025-04-03T22:00:00Z'', JStr ''2025-04-04T22:00:00Z'']))
   \<and> find_category (JStr ''cat-1'')
        [JObj [(''CategoryId'', JStr ''cat-1''),
               (''Availabilities'', JArr [JNum 1, JNull, JNum 0, JStr ''0''])]]
      = Inr (Some (JObj [(''CategoryId'', JStr ''cat-1''),
               (''Availabilities'', JArr [JNum 1, JNull, JNum 0, JStr ''0''])]))
   \<and> length [JNum 1, JNull, JNum 0, JStr ''0'']
      = length [JStr ''2025-04-01T22:00:00Z'', JStr ''2025-04-02T22:00:00Z'',
                     JStr ''2025-04-03T22:00:00Z'', JStr ''2025-04-04T22:00:00Z'']
   \<and> process_response (JStr ''cat-1'')
     (JObj [(''TimeUnitStartsUtc'',
               JArr [JStr ''2025-04-01T22:00:00Z'', JStr ''2025-04-02T22:00:00Z'',
                     JStr ''2025-04-03T22:00:00Z'', JStr ''2025-04-04T22:00:00Z'']),
            (''CategoryAvailabilities'',
               JArr [JObj [(''CategoryId'', JStr ''cat-1''),
                           (''Availabilities'', JArr [JNum 1, JNull, JNum 0, JStr ''0''])]])])
      = Inr ([''2025-04-03''], [])
   \<and> set [''2025-04-03'']
      = {take 10 s | s n. (JStr s, JNum n) \<in> set (zip
            [JStr ''2025-04-01T22:00:00Z'', JStr ''2025-04-02T22:00:00Z'',
             JStr ''2025-04-03T22:00:00Z'', JStr ''2025-04-04T22:00:00Z'']
            [JNum 1, JNull, JNum 0, JStr ''0'']) \<and> n \<le> 0}"
proof -
  let ?dates = "[JStr ''2025-04-01T22:00:00Z'', JStr ''2025-04-02T22:00:00Z'',
                     JStr ''2025-04-03T22:00:00Z'', JStr ''2025-04-04T22:00:00Z'']"
  let ?avail = "[JNum 1, JNull, JNum 0, JStr ''0'']"
  let ?c = "JObj [(''CategoryId'', JStr ''cat-1''), (''Availabilities'', JArr ?avail)]"
  let ?data = "JObj [(''TimeUnitStartsUtc'', JArr ?dates), (''CategoryAvailabilities'', JArr [?c])]"
  have 1: "get_prop ?data ''TimeUnitStartsUtc'' = Inr (Some (JArr ?dates))" by simp
  have 2: "get_prop ?data ''CategoryAvailabilities'' = Inr (Some (JArr [?c]))" by simp
  have 3: "find_category (JStr ''cat-1'') [?c] = Inr (Some ?c)" by simp
  have 4: "get_prop ?c ''Availabilities'' = Inr (Some (JArr ?avail))" by simp
  have 5: "length ?avail = length ?dates" by simp
  have 6: "\<forall>d\<in>set ?dates. \<exists>s. d = JStr s" by simp
  from only_nonpositive_numbers_mark [OF 1 2 3 4 5 6] mark_example 1 3 5
  show ?thesis by simp
qed

text \<open>
  C10.  The array sent back depends on the initial set alone, not on the order in which
  its dates were inserted, and it is sorted and free of duplicates.
\<close>

theorem workaround_canonical:
  assumes "distinct raw1" "distinct raw2" "set raw1 = set raw2"
  shows "workaround raw1 = workaround raw2
    \<and> (\<forall>out. workaround raw1 = Inr out \<longrightarrow> sorted out \<and> distinct out)"
proof -
  have same: "workaround raw1 = workaround raw2"
  proof (cases "\<exists>s\<in>set raw1. \<exists>e. addOneDay s = Inl e")
    case True
    from workaround_fails [OF True] workaround_fails [of raw2] True assms(3)
    show ?thesis by simp
  next
    case False
    then have ok: "\<forall>s\<in>set raw1. \<exists>n. addOneDay s = Inr n"
      by (metis sum.exhaust)
    from workaround_total [OF ok] obtain out1 where out1: "workaround raw1 = Inr out1" by blast
    from ok assms(3) have "\<forall>s\<in>set raw2. \<exists>n. addOneDay s = Inr n" by simp
    from workaround_total [OF this] obtain out2 where out2: "workaround raw2 = Inr out2" by blast
    from workaround_set [OF out1] workaround_set [OF out2] assms(3)
    have "set out1 = set out2" by simp
    moreover from workaround_sorted_distinct [OF assms(1) out1] have "sorted out1" "distinct out1" by simp_all
    moreover from workaround_sorted_distinct [OF assms(2) out2] have "sorted out2" "distinct out2" by simp_all
    ultimately have "out1 = out2" by (intro sorted_distinct_set_unique)
    with out1 out2 show ?thesis by simp
  qed
  have "sorted out \<and> distinct out" if "workaround raw1 = Inr out" for out
    by (rule workaround_sorted_distinct [OF assms(1) that])
  with same show ?thesis by blast
qed

theorem workaround_canonical_witness:
  "distinct [''2025-04-05'', ''2025-04-01''] \<and> distinct [''2025-04-01'', ''2025-04-05'']
   \<and> set [''2025-04-05'', ''2025-04-01''] = set [''2025-04-01'', ''2025-04-05'']
   \<and> workaround [''2025-04-05'', ''2025-04-01''] = workaround [''2025-04-01'', ''2025-04-05'']
   \<and> workaround [''2025-04-05'', ''2025-04-01'']
       = Inr [''2025-04-01'', ''2025-04-02'', ''2025-04-05'', ''2025-04-06'']
   \<and> sorted [''2025-04-01'', ''2025-04-02'', ''2025-04-05'', ''2025-04-06'']
   \<and> distinct [''2025-04-01'', ''2025-04-02'', ''2025-04-05'', ''2025-04-06'']"
proof -
  have h: "distinct [''2025-04-05'', ''2025-04-01'']" "distinct [''2025-04-01'', ''2025-04-05'']"
    "set [''2025-04-05'', ''2025-04-01''] = set [''2025-04-01'', ''2025-04-05'']"
    by (simp_all add: insert_commute)
  from workaround_canonical [OF h] canonical_example(1) h
  show ?thesis by blast
qed

end
